theory Spec2Isabelle
  imports Complex_Main "HOL-Library.Sublist" "HOL-Library.Log_Nat"
begin

section \<open>The equation processor of mdmath-js (src/mdmath-js/src/processor.js)\<close>

text \<open>
  The processor is a long-lived Node.js service. It keeps two caches and two scale
  factors in module-level variables, calls a typesetter (MathJax) and a rasterizer
  (rsvg-convert and ImageMagick, wrapped by magick.js) and answers every request with one
  framed line on its standard output.

  Modelling decisions, each of which is visible in the definitions below:
  \<^item> JavaScript strings are lists of characters; a character stands for one code unit
    in the range 0..255 and \<open>.length\<close> is the length of the list.
  \<^item> A JavaScript number is an IEEE 754 double: a finite value, the negative zero, an
    infinity or NaN. A product and a quotient of the source are the exact result rounded
    to the nearest double, ties to even, with overflow to an infinity, and a division by
    zero gives an infinity or NaN, as the language defines them.
  \<^item> The numeric fields of a request (cell sizes, spans, flags) and the pixel sizes of
    an image are integers. The number the source computes with is the double nearest to
    the integer, which is the integer itself below \<open>2^53\<close>; in the cache key the integer
    is printed as its decimal numeral.
  \<^item> An exception is a value of type \<open>js_error\<close>; a function that can throw returns
    a sum together with the state reached when it threw.
  \<^item> The collaborators that are not part of processor.js (MathJax, magick.js, util.js)
    are the fields of a record \<open>env\<close>. Each of their invocations is appended to the
    field \<open>calls\<close> of the state, each chunk given to \<open>process.stdout.write\<close> to
    the field \<open>stdout\<close>, and each file that \<open>pngFitTo\<close> wrote to \<open>files\<close>.
  \<^item> \<open>processEquation\<close> is an asynchronous function. It is run from the state in
    which it is called to its end, which is what the source does when nothing else is
    dispatched while it awaits, and every collaborator returns or fails. Requests that
    are in flight at the same time are not represented: a statement about two requests
    is about two requests of which the second is dispatched when the first has ended.
\<close>

subsection \<open>Strings and numbers\<close>

definition digit_char :: "nat \<Rightarrow> char" where
  "digit_char d = ''0123456789'' ! d"

text \<open>The decimal numeral that a template literal prints for a non-negative integer.\<close>

fun show_nat :: "nat \<Rightarrow> string" where
  "show_nat n =
     (if n < 10 then [digit_char n] else show_nat (n div 10) @ [digit_char (n mod 10)])"

declare show_nat.simps [simp del]

definition show_int :: "int \<Rightarrow> string" where
  "show_int i = (if i < 0 then CHR ''-'' # show_nat (nat (- i)) else show_nat (nat i))"

text \<open>
  The white space and line terminator code units below 256, which
  \<open>String.prototype.trim\<close> removes from both ends.
\<close>

definition isWhiteSpace :: "char \<Rightarrow> bool" where
  "isWhiteSpace c =
     (c = CHR 0x09 \<or> c = CHR 0x0A \<or> c = CHR 0x0B \<or> c = CHR 0x0C \<or> c = CHR 0x0D
      \<or> c = CHR 0x20 \<or> c = CHR 0xA0)"

definition trim :: "string \<Rightarrow> string" where
  "trim str = rev (dropWhile isWhiteSpace (rev (dropWhile isWhiteSpace str)))"

subsection \<open>Numbers\<close>

text \<open>
  The values of the type Number. \<open>Fin x\<close> is the finite value \<open>x\<close>, and \<open>Fin 0\<close>
  is the positive zero.
\<close>

datatype number = Fin real | NegZero | PosInf | NegInf | NaN

text \<open>
  The binary exponent of a positive real, \<open>\<lfloor>log\<^sub>2 x\<rfloor>\<close>, computed on integers:
  \<open>bitlen n\<close> is the number of binary digits of \<open>n\<close>.
\<close>

definition ilog2 :: "real \<Rightarrow> int" where
  "ilog2 x = (if 1 \<le> x then bitlen \<lfloor>x\<rfloor> - 1 else - bitlen (\<lceil>1 / x\<rceil> - 1))"

definition pow2 :: "int \<Rightarrow> real" where
  "pow2 k = (if 0 \<le> k then 2 ^ nat k else 1 / 2 ^ nat (- k))"

definition roundTiesToEven :: "real \<Rightarrow> int" where
  "roundTiesToEven q =
     (let f = \<lfloor>q\<rfloor> in
      if q - of_int f < 1 / 2 then f
      else if 1 / 2 < q - of_int f then f + 1
      else if even f then f else f + 1)"

text \<open>
  A positive real rounded to the nearest double. The significand has 53 bits, so the
  doubles around a value of binary exponent \<open>e\<close> are the multiples of \<open>2^(e - 52)\<close>;
  below \<open>2^(-1022)\<close> they are the multiples of \<open>2^(-1074)\<close>. \<open>None\<close> is the overflow:
  the rounded value has reached \<open>2^1024\<close>.
\<close>

definition roundMagnitude :: "real \<Rightarrow> real option" where
  "roundMagnitude x =
     (let e = max (ilog2 x) (- 1022);
          ulp = pow2 (e - 52);
          y = of_int (roundTiesToEven (x / ulp)) * ulp
      in if 1024 \<le> ilog2 y then None else Some y)"

text \<open>The number for a sign and an exact magnitude; a zero keeps the sign.\<close>

definition roundedNumber :: "bool \<Rightarrow> real \<Rightarrow> number" where
  "roundedNumber neg m =
     (if m = 0 then (if neg then NegZero else Fin 0)
      else case roundMagnitude m of
             None \<Rightarrow> (if neg then NegInf else PosInf)
           | Some y \<Rightarrow>
               if y = 0 then (if neg then NegZero else Fin 0)
               else Fin (if neg then - y else y))"

definition roundToDouble :: "real \<Rightarrow> number" where
  "roundToDouble x = roundedNumber (x < 0) \<bar>x\<bar>"

text \<open>The number that the source holds for an integer of a request or of an image.\<close>

definition number_of_int :: "int \<Rightarrow> number" where
  "number_of_int i = roundToDouble (of_int i)"

fun isNegative :: "number \<Rightarrow> bool" where
  "isNegative (Fin x) = (x < 0)"
| "isNegative NegZero = True"
| "isNegative PosInf = False"
| "isNegative NegInf = True"
| "isNegative NaN = False"

fun magnitude :: "number \<Rightarrow> real" where
  "magnitude (Fin x) = \<bar>x\<bar>"
| "magnitude NegZero = 0"
| "magnitude PosInf = 0"
| "magnitude NegInf = 0"
| "magnitude NaN = 0"

definition isInfinite :: "number \<Rightarrow> bool" where
  "isInfinite n = (n = PosInf \<or> n = NegInf)"

definition isZero :: "number \<Rightarrow> bool" where
  "isZero n = (n = Fin 0 \<or> n = NegZero)"

definition infinity :: "bool \<Rightarrow> number" where
  "infinity neg = (if neg then NegInf else PosInf)"

text \<open>
  The operators \<open>*\<close> and \<open>/\<close> on numbers (Number::multiply and Number::divide of the
  language): NaN is contagious, an infinity times a zero and the quotients of two
  infinities or two zeros are NaN, the sign of any other result is negative when the
  signs of the operands differ, and a finite result is the rounded exact one.
\<close>

definition Number_multiply :: "number \<Rightarrow> number \<Rightarrow> number" where
  "Number_multiply a b =
     (if a = NaN \<or> b = NaN then NaN
      else if isInfinite a \<or> isInfinite b
      then (if isZero a \<or> isZero b then NaN else infinity (isNegative a \<noteq> isNegative b))
      else roundedNumber (isNegative a \<noteq> isNegative b) (magnitude a * magnitude b))"

definition Number_divide :: "number \<Rightarrow> number \<Rightarrow> number" where
  "Number_divide a b =
     (if a = NaN \<or> b = NaN then NaN
      else if isInfinite a
      then (if isInfinite b then NaN else infinity (isNegative a \<noteq> isNegative b))
      else if isInfinite b then roundedNumber (isNegative a \<noteq> isNegative b) 0
      else if isZero b
      then (if isZero a then NaN else infinity (isNegative a \<noteq> isNegative b))
      else roundedNumber (isNegative a \<noteq> isNegative b) (magnitude a / magnitude b))"

fun numericValue :: "number \<Rightarrow> real" where
  "numericValue (Fin x) = x"
| "numericValue NegZero = 0"
| "numericValue PosInf = 0"
| "numericValue NegInf = 0"
| "numericValue NaN = 0"

text \<open>The operator \<open><\<close>: false when an operand is NaN, and the two zeros are equal.\<close>

definition Number_lessThan :: "number \<Rightarrow> number \<Rightarrow> bool" where
  "Number_lessThan a b =
     (a \<noteq> NaN \<and> b \<noteq> NaN
      \<and> (if a = NegInf then b \<noteq> NegInf
         else if b = PosInf then a \<noteq> PosInf
         else if a = PosInf \<or> b = NegInf then False
         else numericValue a < numericValue b))"

text \<open>
  \<open>Math.max\<close> of two numbers: NaN when an operand is NaN, and the positive zero is
  larger than the negative one.
\<close>

definition Math_max :: "number \<Rightarrow> number \<Rightarrow> number" where
  "Math_max a b =
     (if a = NaN \<or> b = NaN then NaN
      else if Number_lessThan a b then b
      else if Number_lessThan b a then a
      else if a = NegZero then b else a)"

text \<open>\<open>Math.ceil\<close>: a value between \<open>-1\<close> and zero gives the negative zero.\<close>

fun Math_ceil :: "number \<Rightarrow> number" where
  "Math_ceil (Fin x) = (if x < 0 \<and> - 1 < x then NegZero else Fin (of_int \<lceil>x\<rceil>))"
| "Math_ceil NegZero = NegZero"
| "Math_ceil PosInf = PosInf"
| "Math_ceil NegInf = NegInf"
| "Math_ceil NaN = NaN"

subsection \<open>The two regular-expression replacements (lines 143 to 145)\<close>

text \<open>
  \<open>String.prototype.replace\<close> expands dollar patterns of a replacement string. The
  pattern \<open>/currentColor/g\<close> has no capture group, so the patterns that expand are
  \<open>$$\<close>, \<open>$&\<close>, dollar-backquote (the text before the match) and dollar-quote (the text
  after it); every other character is copied.
\<close>

fun getSubstitution :: "string \<Rightarrow> string \<Rightarrow> string \<Rightarrow> string \<Rightarrow> string" where
  "getSubstitution matched pre post [] = []"
| "getSubstitution matched pre post [c] = [c]"
| "getSubstitution matched pre post (c # d # rest) =
     (if c = CHR ''$'' \<and> d = CHR ''$'' then CHR ''$'' # getSubstitution matched pre post rest
      else if c = CHR ''$'' \<and> d = CHR ''&'' then matched @ getSubstitution matched pre post rest
      else if c = CHR ''$'' \<and> d = CHR 0x60 then pre @ getSubstitution matched pre post rest
      else if c = CHR ''$'' \<and> d = CHR 0x27 then post @ getSubstitution matched pre post rest
      else c # getSubstitution matched pre post (d # rest))"

text \<open>
  \<open>str.replace(/currentColor/g, color)\<close>: the matches are found from left to right in
  the original string; \<open>pre\<close> is the part of the original string already scanned.
\<close>

fun replaceCurrentColor :: "string \<Rightarrow> string \<Rightarrow> string \<Rightarrow> string" where
  "replaceCurrentColor color pre [] = []"
| "replaceCurrentColor color pre (c # cs) =
     (if prefix ''currentColor'' (c # cs)
      then getSubstitution ''currentColor'' pre (drop 11 cs) color
           @ replaceCurrentColor color (pre @ ''currentColor'') (drop 11 cs)
      else c # replaceCurrentColor color (pre @ [c]) cs)"

text \<open>
  The pattern \<open>/style="[^"]+"/\<close> at the start of a string: the number of characters
  it matches there. The class \<open>[^"]+\<close> takes every character up to the next double quote,
  needs at least one, and the closing quote must follow.
\<close>

definition styleAttr :: string where
  "styleAttr = ''style='' @ [CHR 0x22]"

definition matchStyle :: "string \<Rightarrow> nat option" where
  "matchStyle str =
     (if prefix styleAttr str then
        (let val = takeWhile (\<lambda>c. c \<noteq> CHR 0x22) (drop 7 str);
             rest = dropWhile (\<lambda>c. c \<noteq> CHR 0x22) (drop 7 str)
         in if val \<noteq> [] \<and> rest \<noteq> [] then Some (7 + length val + 1) else None)
      else None)"

text \<open>
  \<open>str.replace(/style="[^"]+"/, '')\<close>: the pattern has no \<open>g\<close> flag, so the leftmost
  match is removed and the rest of the string is kept as it is.
\<close>

fun removeStyle :: "string \<Rightarrow> string" where
  "removeStyle [] = []"
| "removeStyle (c # cs) =
     (case matchStyle (c # cs) of
        Some n \<Rightarrow> drop n (c # cs)
      | None \<Rightarrow> c # removeStyle cs)"

definition recolor :: "string \<Rightarrow> string \<Rightarrow> string" where
  "recolor color markup = removeStyle (replaceCurrentColor color [] markup)"

subsection \<open>Data\<close>

text \<open>
  What a rejected promise or a \<open>throw\<close> carries: the class \<open>MathError\<close> of the file,
  a \<open>TypeError\<close> of the runtime, or any other \<open>Error\<close>; each has a message.
\<close>

datatype js_error = MathError string | TypeError string | Error string

fun message :: "js_error \<Rightarrow> string" where
  "message (MathError m) = m"
| "message (TypeError m) = m"
| "message (Error m) = m"

text \<open>The message of the runtime when \<open>.length\<close> is read from \<open>undefined\<close>.\<close>

definition undefined_length_message :: string where
  "undefined_length_message =
     ''Cannot read properties of undefined (reading '' @ [CHR 0x27] @ ''length''
       @ [CHR 0x27] @ '')''"

text \<open>The typedef \<open>Equation\<close> of line 18, with the two fields line 179 adds.\<close>

record equationObj =
  eq_equation :: string
  eq_filename :: string
  eq_width :: number
  eq_height :: number

text \<open>
  What \<open>equationToSVG\<close> resolves to, read through the destructuring
  \<open>let {svg, error} = ...\<close>: a field that the object lacks is \<open>None\<close>.
\<close>

record tsresult =
  ts_svg :: "string option"
  ts_error :: "string option"

type_synonym png = string

datatype rsvg_opts = Zoom number | Size number number

text \<open>An invocation of a collaborator, with its arguments.\<close>

datatype call =
    Tex2svg string
  | RsvgConvert string rsvg_opts
  | PngDimensions png
  | PngFitTo png string number number bool

text \<open>
  The collaborators, taken as parameters: their sources are outside processor.js, and
  the types below are those of its call sites. \<open>tex2svg\<close> stands for
  \<open>MathJax.tex2svgPromise\<close> followed by \<open>adaptor.innerHTML\<close>; the \<open>formatError\<close>
  hook of line 238 makes malformed LaTeX a \<open>MathError\<close>. The three functions of
  magick.js fail with an error that has a message or return; a return of \<open>pngFitTo\<close>
  means that the file was written. \<open>sha256Hash\<close> is the function of util.js.
  \<open>numberToString\<close> is the decimal form that the runtime prints for a finite number
  that is not an integer below \<open>10^21\<close>.
\<close>

record env =
  tex2svg :: "string \<Rightarrow> js_error + string"
  rsvgConvert :: "string \<Rightarrow> rsvg_opts \<Rightarrow> js_error + png"
  pngDimensions :: "png \<Rightarrow> js_error + (int \<times> int)"
  pngFitTo :: "png \<Rightarrow> string \<Rightarrow> number \<Rightarrow> number \<Rightarrow> bool \<Rightarrow> js_error + unit"
  sha256Hash :: "string \<Rightarrow> string"
  numberToString :: "real \<Rightarrow> string"
  IMG_DIR :: string

text \<open>
  The module-level variables of lines 21 to 29, and the three observations of the
  outside world.
\<close>

record state =
  equations :: "equationObj list"
  equationMap :: "string \<rightharpoonup> equationObj"
  svgCache :: "string \<rightharpoonup> tsresult"
  internalScale :: number
  dynamicScale :: number
  stdout :: "string list"
  calls :: "call list"
  files :: "string list"

definition init_state :: state where
  "init_state =
     \<lparr>equations = [], equationMap = Map.empty, svgCache = Map.empty,
      internalScale = Fin 1, dynamicScale = Fin 1, stdout = [], calls = [], files = []\<rparr>"

text \<open>A decoded request, as \<open>processAll\<close> reads it.\<close>

record request =
  req_type :: string
  req_identifier :: string
  req_data :: string
  req_cellWidth :: int
  req_cellHeight :: int
  req_width :: int
  req_height :: int
  req_flags :: int
  req_color :: string
  req_scale :: number

text \<open>
  A number in a template literal: both zeros print as \<open>0\<close>, and an integer below
  \<open>10^21\<close> as its decimal numeral.
\<close>

definition show_number :: "env \<Rightarrow> number \<Rightarrow> string" where
  "show_number env n =
     (case n of
        Fin x \<Rightarrow>
          if x = of_int \<lfloor>x\<rfloor> \<and> \<bar>x\<bar> < 10 ^ 21 then show_int \<lfloor>x\<rfloor> else numberToString env x
      | NegZero \<Rightarrow> ''0''
      | PosInf \<Rightarrow> ''Infinity''
      | NegInf \<Rightarrow> ''-Infinity''
      | NaN \<Rightarrow> ''NaN'')"

subsection \<open>The typeset cache (lines 87 to 107)\<close>

text \<open>
  \<open>svgCache\<close> is an object literal, so \<open>equation in svgCache\<close> also holds for the
  property names it inherits from \<open>Object.prototype\<close>; the value read for such a name
  has neither an \<open>svg\<close> nor an \<open>error\<close> field.
\<close>

definition Object_prototype_keys :: "string list" where
  "Object_prototype_keys =
     [''constructor'', ''__defineGetter__'', ''__defineSetter__'', ''hasOwnProperty'',
      ''__lookupGetter__'', ''__lookupSetter__'', ''isPrototypeOf'',
      ''propertyIsEnumerable'', ''toString'', ''valueOf'', ''__proto__'',
      ''toLocaleString'']"

definition svgCache_get :: "state \<Rightarrow> string \<Rightarrow> tsresult option" where
  "svgCache_get s equation =
     (case svgCache s equation of
        Some r \<Rightarrow> Some r
      | None \<Rightarrow>
          if equation \<in> set Object_prototype_keys
          then Some \<lparr>ts_svg = None, ts_error = None\<rparr> else None)"

definition equationToSVG :: "env \<Rightarrow> string \<Rightarrow> state \<Rightarrow> (js_error + tsresult) \<times> state" where
  "equationToSVG env equation s =
     (case svgCache_get s equation of
        Some r \<Rightarrow> (Inr r, s)
      | None \<Rightarrow>
          (let s1 = s\<lparr>calls := calls s @ [Tex2svg equation]\<rparr> in
           case tex2svg env equation of
             Inr markup \<Rightarrow>
               (let r = \<lparr>ts_svg = Some markup, ts_error = None\<rparr>
                in (Inr r, s1\<lparr>svgCache := (svgCache s1)(equation \<mapsto> r)\<rparr>))
           | Inl err \<Rightarrow>
               (case err of
                  MathError m \<Rightarrow>
                    (let r = \<lparr>ts_svg = None, ts_error = Some m\<rparr>
                     in (Inr r, s1\<lparr>svgCache := (svgCache s1)(equation \<mapsto> r)\<rparr>))
                | _ \<Rightarrow> (Inl err, s1))))"

subsection \<open>The response frames (lines 109 to 115)\<close>

definition image_frame :: "env \<Rightarrow> string \<Rightarrow> number \<Rightarrow> number \<Rightarrow> string \<Rightarrow> string" where
  "image_frame env identifier width height data =
     identifier @ '':image:'' @ show_number env width @ '':'' @ show_number env height @ '':''
       @ show_nat (length data) @ '':'' @ data"

definition error_frame :: "string \<Rightarrow> string \<Rightarrow> string" where
  "error_frame identifier msg =
     identifier @ '':error:0:0:'' @ show_nat (length msg) @ '':'' @ msg"

definition write_image :: "env \<Rightarrow> string \<Rightarrow> number \<Rightarrow> number \<Rightarrow> string \<Rightarrow> state \<Rightarrow> state" where
  "write_image env identifier width height data s =
     s\<lparr>stdout := stdout s @ [image_frame env identifier width height data]\<rparr>"

text \<open>
  \<open>writeError\<close> reads \<open>error.length\<close> while it builds the line, so an undefined
  \<open>error\<close> throws before anything is written.
\<close>

definition writeError :: "string \<Rightarrow> string option \<Rightarrow> state \<Rightarrow> (js_error + unit) \<times> state" where
  "writeError identifier err s =
     (case err of
        None \<Rightarrow> (Inl (TypeError undefined_length_message), s)
      | Some msg \<Rightarrow> (Inr (), s\<lparr>stdout := stdout s @ [error_frame identifier msg]\<rparr>))"

subsection \<open>The render pipeline (lines 129 to 184)\<close>

definition equation_key :: "string \<Rightarrow> int \<Rightarrow> int \<Rightarrow> int \<Rightarrow> int \<Rightarrow> int \<Rightarrow> string \<Rightarrow> string" where
  "equation_key equation cWidth cHeight width height flags color =
     equation @ ''_'' @ show_int cWidth @ ''*'' @ show_int width @ ''x''
       @ show_int cHeight @ ''*'' @ show_int height @ ''_'' @ show_int flags
       @ ''_'' @ color"

text \<open>
  Lines 151 to 165, the dynamic branch: the base image at the zoom, its size, and the
  spans and pixel sizes that follow from it. The operations are those of the source, in
  its order: \<open>10 * dynamicScale * cHeight * internalScale / 96\<close> is four operations
  from left to right, each one rounded.
\<close>

definition sizeDynamic ::
  "env \<Rightarrow> string \<Rightarrow> int \<Rightarrow> int \<Rightarrow> int \<Rightarrow> int \<Rightarrow> state
     \<Rightarrow> (js_error + (png \<times> number \<times> number \<times> number \<times> number)) \<times> state" where
  "sizeDynamic env markup cWidth cHeight width height s =
     (let zoom = Number_divide
                   (Number_multiply
                      (Number_multiply (Number_multiply (Fin 10) (dynamicScale s))
                         (number_of_int cHeight))
                      (internalScale s))
                   (Fin 96);
          s1 = s\<lparr>calls := calls s @ [RsvgConvert markup (Zoom zoom)]\<rparr>
      in case rsvgConvert env markup (Zoom zoom) of
           Inl err \<Rightarrow> (Inl err, s1)
         | Inr basePNG \<Rightarrow>
             (let s2 = s1\<lparr>calls := calls s1 @ [PngDimensions basePNG]\<rparr>
              in case pngDimensions env basePNG of
                   Inl err \<Rightarrow> (Inl err, s2)
                 | Inr (pngWidth, pngHeight) \<Rightarrow>
                     (let newWidth = Number_divide
                                       (Number_divide (number_of_int pngWidth) (internalScale s))
                                       (number_of_int cWidth);
                          newHeight = Number_divide
                                        (Number_divide (number_of_int pngHeight) (internalScale s))
                                        (number_of_int cHeight);
                          width' = Math_max (number_of_int width) (Math_ceil newWidth);
                          height' = Math_max (number_of_int height) (Math_ceil newHeight);
                          iWidth = Number_multiply (Number_multiply width' (number_of_int cWidth))
                                     (internalScale s);
                          iHeight = Number_multiply (Number_multiply height' (number_of_int cHeight))
                                      (internalScale s)
                      in (Inr (basePNG, width', height', iWidth, iHeight), s2))))"

text \<open>Lines 166 to 171, the fixed branch.\<close>

definition sizeFixed ::
  "env \<Rightarrow> string \<Rightarrow> int \<Rightarrow> int \<Rightarrow> int \<Rightarrow> int \<Rightarrow> state
     \<Rightarrow> (js_error + (png \<times> number \<times> number \<times> number \<times> number)) \<times> state" where
  "sizeFixed env markup cWidth cHeight width height s =
     (let iWidth = Number_multiply
                     (Number_multiply (number_of_int width) (number_of_int cWidth))
                     (internalScale s);
          iHeight = Number_multiply
                      (Number_multiply (number_of_int height) (number_of_int cHeight))
                      (internalScale s);
          s1 = s\<lparr>calls := calls s @ [RsvgConvert markup (Size iWidth iHeight)]\<rparr>
      in case rsvgConvert env markup (Size iWidth iHeight) of
           Inl err \<Rightarrow> (Inl err, s1)
         | Inr basePNG \<Rightarrow>
             (Inr (basePNG, number_of_int width, number_of_int height, iWidth, iHeight), s1))"

text \<open>Lines 173 to 183: the file name, the fit into the box, the two stores, the answer.\<close>

definition materialize ::
  "env \<Rightarrow> string \<Rightarrow> string \<Rightarrow> string \<Rightarrow> int \<Rightarrow> png \<Rightarrow> number \<Rightarrow> number \<Rightarrow> number \<Rightarrow> number
     \<Rightarrow> state \<Rightarrow> (js_error + unit) \<times> state" where
  "materialize env identifier equation key flags basePNG width height iWidth iHeight s =
     (let hash = take 7 (sha256Hash env equation);
          isCenter = (and flags 2 \<noteq> 0);
          filename = IMG_DIR env @ ''/'' @ hash @ ''_'' @ show_number env iWidth @ ''x''
                       @ show_number env iHeight @ ''.png'';
          s1 = s\<lparr>calls := calls s @ [PngFitTo basePNG filename iWidth iHeight isCenter]\<rparr>
      in case pngFitTo env basePNG filename iWidth iHeight isCenter of
           Inl err \<Rightarrow> (Inl err, s1)
         | Inr u \<Rightarrow>
             (let s2 = s1\<lparr>files := files s1 @ [filename]\<rparr>;
                  obj = \<lparr>eq_equation = equation, eq_filename = filename,
                         eq_width = width, eq_height = height\<rparr>;
                  s3 = s2\<lparr>equations := equations s2 @ [obj]\<rparr>;
                  s4 = s3\<lparr>equationMap := (equationMap s3)(key \<mapsto> obj)\<rparr>
              in (Inr (), write_image env identifier width height filename s4)))"

definition processEquation ::
  "env \<Rightarrow> string \<Rightarrow> string \<Rightarrow> int \<Rightarrow> int \<Rightarrow> int \<Rightarrow> int \<Rightarrow> int \<Rightarrow> string \<Rightarrow> state
     \<Rightarrow> (js_error + unit) \<times> state" where
  "processEquation env identifier equation cWidth cHeight width height flags color s =
     (if equation = [] \<or> length (trim equation) = 0
      then writeError identifier (Some ''Empty equation'') s
      else
        (let key = equation_key equation cWidth cHeight width height flags color in
         case equationMap s key of
           Some obj \<Rightarrow>
             (Inr (),
              write_image env identifier (eq_width obj) (eq_height obj) (eq_filename obj) s)
         | None \<Rightarrow>
             (case equationToSVG env equation s of
                (Inl err, s1) \<Rightarrow> (Inl err, s1)
              | (Inr r, s1) \<Rightarrow>
                  (case ts_svg r of
                     None \<Rightarrow> writeError identifier (ts_error r) s1
                   | Some markup \<Rightarrow>
                       if markup = [] then writeError identifier (ts_error r) s1
                       else
                         (let markup' = recolor color markup;
                              isDynamic = (and flags 1 \<noteq> 0)
                          in case (if isDynamic
                                   then sizeDynamic env markup' cWidth cHeight width height s1
                                   else sizeFixed env markup' cWidth cHeight width height s1) of
                               (Inl err, s2) \<Rightarrow> (Inl err, s2)
                             | (Inr (basePNG, width', height', iWidth, iHeight), s2) \<Rightarrow>
                                 materialize env identifier equation key flags basePNG
                                   width' height' iWidth iHeight s2)))))"

subsection \<open>The dispatcher (lines 186 to 207)\<close>

text \<open>
  The result \<open>Inl\<close> would be a rejection that nothing handles, which ends a Node.js
  process; \<open>Inr\<close> is a request that was dealt with.
\<close>

definition processAll :: "env \<Rightarrow> request \<Rightarrow> state \<Rightarrow> (js_error + unit) \<times> state" where
  "processAll env request s =
     (if req_type request = ''request'' then
        (case processEquation env (req_identifier request) (req_data request)
                (req_cellWidth request) (req_cellHeight request) (req_width request)
                (req_height request) (req_flags request) (req_color request) s of
           (Inr u, s1) \<Rightarrow> (Inr (), s1)
         | (Inl err, s1) \<Rightarrow> writeError (req_identifier request) (Some (message err)) s1)
      else if req_type request = ''dscale'' then (Inr (), s\<lparr>dynamicScale := req_scale request\<rparr>)
      else if req_type request = ''iscale'' then (Inr (), s\<lparr>internalScale := req_scale request\<rparr>)
      else (Inr (), s))"

subsection \<open>Concrete collaborators and requests\<close>

text \<open>
  A set of collaborators on which the definitions can be evaluated: a typesetter that
  knows two equations, rejects two as malformed and fails on every other text, a
  rasterizer that fails on one markup only, and a fixed image size of 20 by 12 pixels.
\<close>

definition demo_markup :: string where
  \<open>demo_markup =
     ''<svg style="vertical-align: -0.05ex" fill="currentColor"><g style="fill: red" stroke="currentColor"/></svg>''\<close>

definition demo_env :: env where
  "demo_env =
     \<lparr>tex2svg = (\<lambda>equation.
        if equation = ''x^2'' then Inr demo_markup
        else if equation = ''y'' then Inr ''<svg/>''
        else if equation = ''x^{'' then Inl (MathError ''Missing close brace'')
        else if equation = ''x^2_8*1x16*1_0_#fff''
        then Inl (MathError ''Double subscripts: use braces to clarify'')
        else Inl (Error ''MathJax retry'')),
      rsvgConvert = (\<lambda>markup opts.
        if markup = ''<svg/>'' then Inl (Error ''rsvg-convert failed'') else Inr ''PNG''),
      pngDimensions = (\<lambda>p. Inr (20, 12)),
      pngFitTo = (\<lambda>p filename w h center. Inr ()),
      sha256Hash = (\<lambda>str. ''9f86d081884c7d65''),
      numberToString = (\<lambda>r. ''1.5''),
      IMG_DIR = ''/tmp/nvim-mdmath-a1b2c3''\<rparr>"

definition demo_request :: request where
  "demo_request =
     \<lparr>req_type = ''request'', req_identifier = ''1'', req_data = ''x^2'',
      req_cellWidth = 8, req_cellHeight = 16, req_width = 1, req_height = 1,
      req_flags = 0, req_color = ''#ffffff'', req_scale = Fin 1\<rparr>"

subsection \<open>Observations used in the statements\<close>

text \<open>What follows the identifier in a success frame.\<close>

definition image_payload :: "env \<Rightarrow> number \<Rightarrow> number \<Rightarrow> string \<Rightarrow> string" where
  "image_payload env width height data =
     '':image:'' @ show_number env width @ '':'' @ show_number env height @ '':''
       @ show_nat (length data) @ '':'' @ data"

text \<open>What follows the identifier in an error frame.\<close>

definition error_payload :: "string \<Rightarrow> string" where
  "error_payload msg = '':error:0:0:'' @ show_nat (length msg) @ '':'' @ msg"

text \<open>The pixel box that an invocation of the rasterizer was given, if it was given one.\<close>

fun rasterizer_size :: "call \<Rightarrow> (number \<times> number) option" where
  "rasterizer_size (RsvgConvert markup (Size w h)) = Some (w, h)"
| "rasterizer_size (RsvgConvert markup (Zoom z)) = None"
| "rasterizer_size (PngFitTo p filename w h center) = Some (w, h)"
| "rasterizer_size (Tex2svg equation) = None"
| "rasterizer_size (PngDimensions p) = None"

text \<open>
  An invocation that ended in a tooling failure: the collaborator failed, and not with
  the \<open>MathError\<close> that stands for malformed LaTeX.
\<close>

fun tooling_failure :: "env \<Rightarrow> call \<Rightarrow> bool" where
  "tooling_failure env (Tex2svg equation) =
     (case tex2svg env equation of
        Inl err \<Rightarrow> (case err of MathError m \<Rightarrow> False | TypeError m \<Rightarrow> True | Error m \<Rightarrow> True)
      | Inr markup \<Rightarrow> False)"
| "tooling_failure env (RsvgConvert markup opts) =
     (case rsvgConvert env markup opts of Inl err \<Rightarrow> True | Inr p \<Rightarrow> False)"
| "tooling_failure env (PngDimensions p) =
     (case pngDimensions env p of Inl err \<Rightarrow> True | Inr d \<Rightarrow> False)"
| "tooling_failure env (PngFitTo p filename w h center) =
     (case pngFitTo env p filename w h center of Inl err \<Rightarrow> True | Inr u \<Rightarrow> False)"

text \<open>
  Every entry of the rendered-image cache is on the cleanup list, and every file on the
  cleanup list was written.
\<close>

definition artifacts_written :: "state \<Rightarrow> bool" where
  "artifacts_written s =
     (ran (equationMap s) \<subseteq> set (equations s)
      \<and> eq_filename ` set (equations s) \<subseteq> set (files s))"

text \<open>
  What the success path of lines 177 to 181 leaves: the entry is the last of the cleanup
  list and the value of its key, its file is the last file written, and the last
  invocation is the \<open>pngFitTo\<close> that wrote it and returned.
\<close>

definition stored :: "env \<Rightarrow> string \<Rightarrow> string \<Rightarrow> state \<Rightarrow> state \<Rightarrow> equationObj \<Rightarrow> bool" where
  "stored env equation key s s1 obj =
     (eq_equation obj = equation
      \<and> equations s1 = equations s @ [obj]
      \<and> equationMap s1 = (equationMap s)(key \<mapsto> obj)
      \<and> files s1 = files s @ [eq_filename obj]
      \<and> (\<exists>t p w h center. calls s1 = calls s @ t @ [PngFitTo p (eq_filename obj) w h center]
            \<and> pngFitTo env p (eq_filename obj) w h center = Inr ()))"

text \<open>
  The spans of the entries of the rendered-image cache are not smaller than the spans
  of the requests they answer: an entry under the key of a request whose color has no
  underscore has spans that are not below the spans of that request.
\<close>

definition spans_respected :: "state \<Rightarrow> bool" where
  "spans_respected s =
     (\<forall>equation cWidth cHeight width height flags color obj.
        CHR ''_'' \<notin> set color
        \<and> equationMap s (equation_key equation cWidth cHeight width height flags color) = Some obj
        \<longrightarrow> \<not> Number_lessThan (eq_width obj) (number_of_int width)
          \<and> \<not> Number_lessThan (eq_height obj) (number_of_int height))"

section \<open>Properties\<close>

subsection \<open>Numbers\<close>

text \<open>
  An integer below \<open>2^53\<close> is a double, and the product of two positive integers is
  exact as long as it stays below \<open>2^53\<close>.
\<close>

lemma roundTiesToEven_of_int: "roundTiesToEven (of_int m) = m"
  by (simp add: roundTiesToEven_def)

lemma pow2_nonpos: "k \<le> 0 \<Longrightarrow> pow2 k = 1 / 2 ^ nat (- k)"
  by (cases "k = 0") (simp_all add: pow2_def)

lemma ilog2_of_int: "0 < n \<Longrightarrow> ilog2 (of_int n) = bitlen n - 1"
  by (simp add: ilog2_def)

lemma bitlen_below:
  assumes "0 < n" and "n < 2 ^ 53"
  shows "1 \<le> bitlen n \<and> bitlen n \<le> 53"
proof -
  have b: "2 ^ nat (bitlen n - 1) \<le> n" using bitlen_bounds [OF assms(1)] by simp
  have p: "1 \<le> bitlen n" using assms(1) by (simp add: bitlen_alt_def)
  have "(2::int) ^ nat (bitlen n - 1) < 2 ^ 53" using b assms(2) by simp
  then have "nat (bitlen n - 1) < 53" by (rule power_less_imp_less_exp [rotated]) simp
  then show ?thesis using p by simp
qed

lemma roundMagnitude_of_int:
  assumes "0 < n" and "n < 2 ^ 53"
  shows "roundMagnitude (of_int n) = Some (of_int n)"
proof -
  define e where "e = bitlen n - 1"
  have e: "0 \<le> e" "e \<le> 52" using bitlen_below [OF assms] by (simp_all add: e_def)
  have l: "ilog2 (of_int n) = e" using ilog2_of_int [OF assms(1)] by (simp add: e_def)
  have m: "max e (- 1022) = e" using e by simp
  have u: "pow2 (e - 52) = 1 / 2 ^ nat (52 - e)" using pow2_nonpos [of "e - 52"] e by simp
  have q: "of_int n / pow2 (e - 52) = real_of_int (n * 2 ^ nat (52 - e))" unfolding u by simp
  have y: "real_of_int (roundTiesToEven (of_int n / pow2 (e - 52))) * pow2 (e - 52) = of_int n"
    unfolding q roundTiesToEven_of_int unfolding u by simp
  show ?thesis
    unfolding roundMagnitude_def l m Let_def y l using e by simp
qed

lemma number_of_int_exact:
  assumes "\<bar>n\<bar> < 2 ^ 53"
  shows "number_of_int n = Fin (of_int n)"
proof -
  consider "n = 0" | "0 < n" | "n < 0" by linarith
  then show ?thesis
  proof cases
    case 1
    then show ?thesis by (simp add: number_of_int_def roundToDouble_def roundedNumber_def)
  next
    case 2
    then have "roundMagnitude (of_int n) = Some (of_int n)"
      using assms by (intro roundMagnitude_of_int) simp_all
    then show ?thesis using 2 by (simp add: number_of_int_def roundToDouble_def roundedNumber_def)
  next
    case 3
    then have "roundMagnitude (of_int (- n)) = Some (of_int (- n))"
      using assms by (intro roundMagnitude_of_int) simp_all
    then show ?thesis using 3 by (simp add: number_of_int_def roundToDouble_def roundedNumber_def)
  qed
qed

lemma Number_multiply_exact:
  assumes "0 < a" and "0 < b" and "a * b < 2 ^ 53"
  shows "Number_multiply (Fin (of_int a)) (Fin (of_int b)) = Fin (of_int (a * b))"
proof -
  have p: "0 < a * b" using assms by simp
  have "roundMagnitude (of_int (a * b)) = Some (of_int (a * b))"
    using p assms(3) by (rule roundMagnitude_of_int)
  then show ?thesis using assms(1,2) p
    by (simp add: Number_multiply_def roundedNumber_def isInfinite_def isZero_def)
qed

lemma Number_lessThan_irrefl: "\<not> Number_lessThan a a"
  by (cases a) (simp_all add: Number_lessThan_def)

lemma Math_max_not_less: "\<not> Number_lessThan (Math_max a b) a"
  by (cases a; cases b) (auto simp: Math_max_def Number_lessThan_def)

text \<open>
  The two facts as code equations, so that the arithmetic on small integers is evaluated
  without a rounding step.
\<close>

lemma number_of_int_code [code]:
  "number_of_int i = (if \<bar>i\<bar> < 9007199254740992 then Fin (of_int i) else roundToDouble (of_int i))"
  using number_of_int_exact [of i] by (simp add: number_of_int_def)

lemma Number_multiply_code [code]:
  "Number_multiply a b =
     (case (a, b) of
        (Fin x, Fin y) \<Rightarrow>
          if 0 < x \<and> 0 < y \<and> x = of_int \<lfloor>x\<rfloor> \<and> y = of_int \<lfloor>y\<rfloor> \<and> x * y < 9007199254740992
          then Fin (x * y)
          else roundedNumber ((x < 0) \<noteq> (y < 0)) (\<bar>x\<bar> * \<bar>y\<bar>)
      | _ \<Rightarrow>
          if a = NaN \<or> b = NaN then NaN
          else if isInfinite a \<or> isInfinite b
          then (if isZero a \<or> isZero b then NaN else infinity (isNegative a \<noteq> isNegative b))
          else roundedNumber (isNegative a \<noteq> isNegative b) (magnitude a * magnitude b))"
proof (cases a; cases b)
  fix x y
  assume ab: "a = Fin x" "b = Fin y"
  show ?thesis
  proof (cases "0 < x \<and> 0 < y \<and> x = of_int \<lfloor>x\<rfloor> \<and> y = of_int \<lfloor>y\<rfloor> \<and> x * y < 9007199254740992")
    case True
    then have "0 < \<lfloor>x\<rfloor>" "0 < \<lfloor>y\<rfloor>" by linarith+
    moreover have "real_of_int (\<lfloor>x\<rfloor> * \<lfloor>y\<rfloor>) < real_of_int (2 ^ 53)" using True by simp
    then have "\<lfloor>x\<rfloor> * \<lfloor>y\<rfloor> < 2 ^ 53" by (simp only: of_int_less_iff)
    ultimately have "Number_multiply (Fin (of_int \<lfloor>x\<rfloor>)) (Fin (of_int \<lfloor>y\<rfloor>)) = Fin (of_int (\<lfloor>x\<rfloor> * \<lfloor>y\<rfloor>))"
      by (rule Number_multiply_exact)
    then show ?thesis using True ab by simp
  next
    case False
    then have "\<not> (0 < x \<and> 0 < y \<and> x = of_int \<lfloor>x\<rfloor> \<and> y = of_int \<lfloor>y\<rfloor> \<and> x * y < 9007199254740992)"
      by blast
    then show ?thesis unfolding ab
      by (simp only: Number_multiply_def isInfinite_def prod.case number.case if_False
            number.distinct simp_thms isNegative.simps magnitude.simps)
  qed
qed (simp_all add: Number_multiply_def)

subsection \<open>Numerals and frames\<close>

lemma show_nat_14: "show_nat 14 = ''14''"
  by (simp add: show_nat.simps digit_char_def)

lemma empty_equation_frame:
  "error_frame identifier ''Empty equation'' = identifier @ '':error:0:0:14:Empty equation''"
proof -
  have len: "length ''Empty equation'' = 14" by simp
  show ?thesis unfolding error_frame_def len show_nat_14 by simp
qed

subsection \<open>The keys of the two caches\<close>

text \<open>
  Both caches are object literals. A key of the rendered-image cache holds a \<open>*\<close>,
  which no property name of \<open>Object.prototype\<close> does: \<open>equation_key in equationMap\<close>
  holds for the keys that were stored and for no other, which is why \<open>equationMap\<close> is
  read as a plain map.
\<close>

lemma equation_key_not_inherited:
  "equation_key equation cWidth cHeight width height flags color \<notin> set Object_prototype_keys"
proof -
  have "CHR ''*'' \<in> set (equation_key equation cWidth cHeight width height flags color)"
    by (simp add: equation_key_def)
  moreover have "\<forall>k\<in>set Object_prototype_keys. CHR ''*'' \<notin> set k"
    by (simp add: Object_prototype_keys_def)
  ultimately show ?thesis by blast
qed

subsection \<open>Blank equations\<close>

lemma blank_trim: "\<forall>c\<in>set str. isWhiteSpace c \<Longrightarrow> str = [] \<or> length (trim str) = 0"
  by (auto simp: trim_def dest: set_dropWhileD)

lemma processEquation_blank:
  assumes "\<forall>c\<in>set equation. isWhiteSpace c"
  shows "processEquation env identifier equation cWidth cHeight width height flags color s =
    (Inr (), s\<lparr>stdout := stdout s @ [identifier @ '':error:0:0:14:Empty equation'']\<rparr>)"
  using blank_trim [OF assms]
  by (simp add: processEquation_def writeError_def empty_equation_frame)

text \<open>
  Claim C3. A render request whose equation is empty or made of white space only is
  answered with the error frame for the message \<open>Empty equation\<close>; nothing else of the
  state changes, so the typesetter is not invoked (the list of invocations is the one
  before the request). With the identifier \<open>1\<close> the line written is
  \<open>1:error:0:0:14:Empty equation\<close>.
\<close>

theorem empty_equation_is_error:
  assumes "req_type r = ''request''" and "\<forall>c\<in>set (req_data r). isWhiteSpace c"
  shows "processAll env r s =
           (Inr (), s\<lparr>stdout := stdout s @ [req_identifier r @ '':error:0:0:14:Empty equation'']\<rparr>)
         \<and> calls (snd (processAll env r s)) = calls s
         \<and> (req_identifier r = ''1'' \<longrightarrow>
              stdout (snd (processAll env r s)) = stdout s @ [''1:error:0:0:14:Empty equation''])"
  using assms by (simp add: processAll_def processEquation_blank)

theorem empty_equation_is_error_witness:
  "stdout (snd (processAll demo_env (demo_request\<lparr>req_data := ''''\<rparr>) init_state))
     = [''1:error:0:0:14:Empty equation'']
   \<and> calls (snd (processAll demo_env (demo_request\<lparr>req_data := ''''\<rparr>) init_state)) = []
   \<and> stdout (snd (processAll demo_env (demo_request\<lparr>req_data := [CHR 0x20, CHR 0x09]\<rparr>) init_state))
     = [''1:error:0:0:14:Empty equation'']"
  using empty_equation_is_error [of "demo_request\<lparr>req_data := ''''\<rparr>" demo_env init_state]
    empty_equation_is_error [of "demo_request\<lparr>req_data := [CHR 0x20, CHR 0x09]\<rparr>" demo_env init_state]
  by (simp add: demo_request_def init_state_def isWhiteSpace_def)

subsection \<open>Scale updates\<close>

text \<open>
  Claim C9. A request of type \<open>dscale\<close> changes the variable \<open>dynamicScale\<close> and a
  request of type \<open>iscale\<close> the variable \<open>internalScale\<close>, and nothing else: both
  caches and the cleanup list are the ones before the request, so an entry computed
  under the old scale stays.
\<close>

theorem scale_update_only_scale:
  "processAll env (r\<lparr>req_type := ''dscale''\<rparr>) s = (Inr (), s\<lparr>dynamicScale := req_scale r\<rparr>)
   \<and> processAll env (r\<lparr>req_type := ''iscale''\<rparr>) s = (Inr (), s\<lparr>internalScale := req_scale r\<rparr>)
   \<and> equationMap (snd (processAll env (r\<lparr>req_type := ''dscale''\<rparr>) s)) = equationMap s
   \<and> equationMap (snd (processAll env (r\<lparr>req_type := ''iscale''\<rparr>) s)) = equationMap s
   \<and> svgCache (snd (processAll env (r\<lparr>req_type := ''dscale''\<rparr>) s)) = svgCache s
   \<and> svgCache (snd (processAll env (r\<lparr>req_type := ''iscale''\<rparr>) s)) = svgCache s
   \<and> equations (snd (processAll env (r\<lparr>req_type := ''dscale''\<rparr>) s)) = equations s
   \<and> equations (snd (processAll env (r\<lparr>req_type := ''iscale''\<rparr>) s)) = equations s"
  by (simp add: processAll_def)

subsection \<open>The paths of the render pipeline\<close>

lemma image_frame_payload: "image_frame env identifier w h d = identifier @ image_payload env w h d"
  by (simp add: image_frame_def image_payload_def)

lemma error_frame_payload: "error_frame identifier m = identifier @ error_payload m"
  by (simp add: error_frame_def error_payload_def)

lemma error_frame_not_image: "error_frame identifier m \<noteq> image_frame env identifier w h d"
  by (simp add: error_frame_def image_frame_def)

lemma processEquation_hit:
  assumes "\<not> (equation = [] \<or> length (trim equation) = 0)"
    and "equationMap s (equation_key equation cWidth cHeight width height flags color) = Some obj"
  shows "processEquation env identifier equation cWidth cHeight width height flags color s =
    (Inr (), write_image env identifier (eq_width obj) (eq_height obj) (eq_filename obj) s)"
  using assms by (simp add: processEquation_def)

lemma equationToSVG_frame:
  assumes "equationToSVG env equation s = (res, s1)"
  shows "equations s1 = equations s \<and> equationMap s1 = equationMap s
    \<and> internalScale s1 = internalScale s \<and> dynamicScale s1 = dynamicScale s
    \<and> stdout s1 = stdout s \<and> files s1 = files s \<and> (\<exists>t. calls s1 = calls s @ t)"
  using assms
  by (auto simp: equationToSVG_def Let_def split: option.splits sum.splits js_error.splits)

lemma sizeDynamic_frame:
  assumes "sizeDynamic env markup cWidth cHeight width height s = (res, s1)"
  shows "equations s1 = equations s \<and> equationMap s1 = equationMap s \<and> svgCache s1 = svgCache s
    \<and> internalScale s1 = internalScale s \<and> dynamicScale s1 = dynamicScale s
    \<and> stdout s1 = stdout s \<and> files s1 = files s \<and> (\<exists>t. calls s1 = calls s @ t)"
  using assms
  by (auto simp: sizeDynamic_def Let_def split: sum.splits prod.splits)

lemma sizeFixed_frame:
  assumes "sizeFixed env markup cWidth cHeight width height s = (res, s1)"
  shows "equations s1 = equations s \<and> equationMap s1 = equationMap s \<and> svgCache s1 = svgCache s
    \<and> internalScale s1 = internalScale s \<and> dynamicScale s1 = dynamicScale s
    \<and> stdout s1 = stdout s \<and> files s1 = files s \<and> (\<exists>t. calls s1 = calls s @ t)"
  using assms
  by (auto simp: sizeFixed_def Let_def split: sum.splits prod.splits)

lemma sizeDynamic_not_less:
  assumes "sizeDynamic env markup cWidth cHeight width height s
             = (Inr (basePNG, width', height', iWidth, iHeight), s1)"
  shows "\<not> Number_lessThan width' (number_of_int width)
    \<and> \<not> Number_lessThan height' (number_of_int height)"
  using assms
  by (auto simp: sizeDynamic_def Let_def Math_max_not_less split: sum.splits prod.splits)

lemma sizeFixed_spans:
  assumes "sizeFixed env markup cWidth cHeight width height s
             = (Inr (basePNG, width', height', iWidth, iHeight), s1)"
  shows "width' = number_of_int width \<and> height' = number_of_int height"
  using assms
  by (auto simp: sizeFixed_def Let_def split: sum.splits)

lemma materialize_Inl:
  assumes "materialize env identifier equation key flags basePNG width height iWidth iHeight s = (Inl err, s1)"
  shows "equations s1 = equations s \<and> equationMap s1 = equationMap s \<and> svgCache s1 = svgCache s
    \<and> internalScale s1 = internalScale s \<and> dynamicScale s1 = dynamicScale s
    \<and> stdout s1 = stdout s \<and> files s1 = files s"
  using assms
  by (auto simp: materialize_def Let_def write_image_def split: sum.splits)

lemma materialize_Inr:
  assumes "materialize env identifier equation key flags basePNG width height iWidth iHeight s = (Inr u, s1)"
  shows "\<exists>obj. eq_equation obj = equation \<and> eq_width obj = width \<and> eq_height obj = height
    \<and> equations s1 = equations s @ [obj] \<and> equationMap s1 = (equationMap s)(key \<mapsto> obj)
    \<and> files s1 = files s @ [eq_filename obj]
    \<and> stdout s1 = stdout s @ [image_frame env identifier width height (eq_filename obj)]
    \<and> svgCache s1 = svgCache s
    \<and> internalScale s1 = internalScale s \<and> dynamicScale s1 = dynamicScale s
    \<and> (\<exists>center. calls s1 = calls s @ [PngFitTo basePNG (eq_filename obj) iWidth iHeight center]
          \<and> pngFitTo env basePNG (eq_filename obj) iWidth iHeight center = Inr ())"
  using assms
  by (auto simp: materialize_def Let_def write_image_def split: sum.splits)

lemma processEquation_paths:
  assumes "processEquation env identifier equation cWidth cHeight width height flags color s = (res, s1)"
  shows "(res = Inr () \<and> (\<exists>m. stdout s1 = stdout s @ [error_frame identifier m])
            \<and> equations s1 = equations s \<and> equationMap s1 = equationMap s \<and> files s1 = files s)
       \<or> (res = Inr () \<and> \<not> (equation = [] \<or> length (trim equation) = 0)
            \<and> (\<exists>obj. equationMap s (equation_key equation cWidth cHeight width height flags color) = Some obj
                 \<and> s1 = write_image env identifier (eq_width obj) (eq_height obj) (eq_filename obj) s))
       \<or> (res = Inr () \<and> \<not> (equation = [] \<or> length (trim equation) = 0)
            \<and> equationMap s (equation_key equation cWidth cHeight width height flags color) = None
            \<and> (\<exists>obj. stored env equation (equation_key equation cWidth cHeight width height flags color) s s1 obj
                 \<and> stdout s1 = stdout s @ [image_frame env identifier (eq_width obj) (eq_height obj) (eq_filename obj)]
                 \<and> \<not> Number_lessThan (eq_width obj) (number_of_int width)
                 \<and> \<not> Number_lessThan (eq_height obj) (number_of_int height)))
       \<or> ((\<exists>err. res = Inl err) \<and> stdout s1 = stdout s
            \<and> equations s1 = equations s \<and> equationMap s1 = equationMap s \<and> files s1 = files s)"
proof (cases "equation = [] \<or> length (trim equation) = 0")
  case True
  then show ?thesis using assms
    by (auto simp: processEquation_def writeError_def)
next
  case nonblank: False
  let ?k = "equation_key equation cWidth cHeight width height flags color"
  show ?thesis
  proof (cases "equationMap s ?k")
    case (Some obj)
    then show ?thesis using assms nonblank processEquation_hit [OF nonblank Some, of env "identifier"]
      by auto
  next
    case None
    obtain r0 s0 where ts: "equationToSVG env equation s = (r0, s0)" by (cases "equationToSVG env equation s")
    note f0 = equationToSVG_frame [OF ts]
    show ?thesis
    proof (cases r0)
      case (Inl err)
      then show ?thesis using assms nonblank None ts f0
        by (auto simp: processEquation_def)
    next
      case (Inr r)
      show ?thesis
      proof (cases "ts_svg r = None \<or> ts_svg r = Some []")
        case True
        then show ?thesis using assms nonblank None ts f0 Inr
          by (auto simp: processEquation_def writeError_def split: option.splits)
      next
        case False
        then obtain markup where mk: "ts_svg r = Some markup" "markup \<noteq> []" by auto
        define sz where "sz = (if and flags 1 \<noteq> 0
                                   then sizeDynamic env (recolor color markup) cWidth cHeight width height s0
                                   else sizeFixed env (recolor color markup) cWidth cHeight width height s0)"
        obtain r2 s2 where szr: "sz = (r2, s2)" by (cases sz)
        have f2: "equations s2 = equations s0 \<and> equationMap s2 = equationMap s0 \<and> svgCache s2 = svgCache s0
          \<and> internalScale s2 = internalScale s0 \<and> dynamicScale s2 = dynamicScale s0
          \<and> stdout s2 = stdout s0 \<and> files s2 = files s0 \<and> (\<exists>t. calls s2 = calls s0 @ t)"
          using szr sizeDynamic_frame sizeFixed_frame unfolding sz_def by (metis (full_types))
        have pe: "(res, s1) = (case sz of
                               (Inl err, s2) \<Rightarrow> (Inl err, s2)
                             | (Inr (basePNG, width', height', iWidth, iHeight), s2) \<Rightarrow>
                                 materialize env identifier equation ?k flags basePNG
                                   width' height' iWidth iHeight s2)"
          using assms nonblank None ts Inr mk unfolding sz_def
          by (simp add: processEquation_def Let_def)
        show ?thesis
        proof (cases r2)
          case (Inl err)
          then show ?thesis using pe szr f0 f2 by auto
        next
          case (Inr tup)
          obtain basePNG w' h' iW iH where tup: "tup = (basePNG, w', h', iW, iH)" by (cases tup) auto
          have m: "materialize env identifier equation ?k flags basePNG w' h' iW iH s2 = (res, s1)"
            using pe szr Inr tup by simp
          show ?thesis
          proof (cases res)
            case (Inl err)
            then show ?thesis using materialize_Inl [of env "identifier" equation ?k flags basePNG w' h' iW iH s2 err s1] m f0 f2
              by auto
          next
            case (Inr u)
            from materialize_Inr [of env "identifier" equation ?k flags basePNG w' h' iW iH s2 u s1] m Inr
            obtain obj center where o: "eq_equation obj = equation" "eq_width obj = w'" "eq_height obj = h'"
              "equations s1 = equations s2 @ [obj]" "equationMap s1 = (equationMap s2)(?k \<mapsto> obj)"
              "files s1 = files s2 @ [eq_filename obj]"
              "stdout s1 = stdout s2 @ [image_frame env identifier w' h' (eq_filename obj)]"
              "calls s1 = calls s2 @ [PngFitTo basePNG (eq_filename obj) iW iH center]"
              "pngFitTo env basePNG (eq_filename obj) iW iH center = Inr ()"
              by blast
            obtain t0 t2 where t: "calls s0 = calls s @ t0" "calls s2 = calls s0 @ t2" using f0 f2 by blast
            have "calls s1 = calls s @ (t0 @ t2) @ [PngFitTo basePNG (eq_filename obj) iW iH center]"
              using o t by simp
            then have "\<exists>t p w h center. calls s1 = calls s @ t @ [PngFitTo p (eq_filename obj) w h center]
                \<and> pngFitTo env p (eq_filename obj) w h center = Inr ()"
              using o(9) by blast
            then have "stored env equation ?k s s1 obj"
              unfolding stored_def using o(1,4,5,6) f0 f2 by simp
            moreover have "stdout s1 = stdout s @ [image_frame env identifier (eq_width obj) (eq_height obj) (eq_filename obj)]"
              using o f0 f2 by simp
            moreover have "\<not> Number_lessThan w' (number_of_int width)
                \<and> \<not> Number_lessThan h' (number_of_int height)"
            proof (cases "and flags 1 \<noteq> 0")
              case True
              then show ?thesis using szr \<open>r2 = Inr tup\<close> tup sizeDynamic_not_less unfolding sz_def
                by auto
            next
              case False
              then have "w' = number_of_int width \<and> h' = number_of_int height"
                using szr \<open>r2 = Inr tup\<close> tup sizeFixed_spans unfolding sz_def by auto
              then show ?thesis by (simp add: Number_lessThan_irrefl)
            qed
            ultimately show ?thesis using Inr nonblank None o(2,3) by auto
          qed
        qed
      qed
    qed
  qed
qed

lemma processAll_render_paths:
  assumes "req_type r = ''request''" and "processAll env r s = (res, s1)"
  shows "res = Inr () \<and>
      (((\<exists>m. stdout s1 = stdout s @ [error_frame (req_identifier r) m])
            \<and> equations s1 = equations s \<and> equationMap s1 = equationMap s \<and> files s1 = files s)
       \<or> (\<not> (req_data r = [] \<or> length (trim (req_data r)) = 0)
            \<and> (\<exists>obj. equationMap s (equation_key (req_data r) (req_cellWidth r) (req_cellHeight r)
                         (req_width r) (req_height r) (req_flags r) (req_color r)) = Some obj
                 \<and> s1 = write_image env (req_identifier r) (eq_width obj) (eq_height obj) (eq_filename obj) s))
       \<or> (\<not> (req_data r = [] \<or> length (trim (req_data r)) = 0)
            \<and> equationMap s (equation_key (req_data r) (req_cellWidth r) (req_cellHeight r)
                         (req_width r) (req_height r) (req_flags r) (req_color r)) = None
            \<and> (\<exists>obj. stored env (req_data r) (equation_key (req_data r) (req_cellWidth r) (req_cellHeight r)
                         (req_width r) (req_height r) (req_flags r) (req_color r)) s s1 obj
                 \<and> stdout s1 = stdout s @ [image_frame env (req_identifier r) (eq_width obj) (eq_height obj) (eq_filename obj)]
                 \<and> \<not> Number_lessThan (eq_width obj) (number_of_int (req_width r))
                 \<and> \<not> Number_lessThan (eq_height obj) (number_of_int (req_height r)))))"
proof -
  obtain r0 s0 where pe: "processEquation env (req_identifier r) (req_data r)
                (req_cellWidth r) (req_cellHeight r) (req_width r)
                (req_height r) (req_flags r) (req_color r) s = (r0, s0)"
    by (cases "processEquation env (req_identifier r) (req_data r)
                (req_cellWidth r) (req_cellHeight r) (req_width r)
                (req_height r) (req_flags r) (req_color r) s")
  show ?thesis
  proof (cases r0)
    case (Inl err)
    then have "res = Inr ()" "s1 = s0\<lparr>stdout := stdout s0 @ [error_frame (req_identifier r) (message err)]\<rparr>"
      using assms pe by (auto simp: processAll_def writeError_def)
    then show ?thesis using processEquation_paths [OF pe] Inl by auto
  next
    case (Inr u)
    then have "res = Inr ()" "s1 = s0" using assms pe by (auto simp: processAll_def)
    then show ?thesis using processEquation_paths [OF pe] Inr by auto
  qed
qed

lemma processAll_calls:
  assumes "req_type r = ''request''"
  shows "calls (snd (processAll env r s))
    = calls (snd (processEquation env (req_identifier r) (req_data r) (req_cellWidth r)
                    (req_cellHeight r) (req_width r) (req_height r) (req_flags r) (req_color r) s))"
  using assms by (auto simp: processAll_def writeError_def split: prod.splits sum.splits)

subsection \<open>One response for each render request\<close>

text \<open>
  Claim C7. A request of type \<open>request\<close> appends exactly one line to the standard
  output, and the line is a success frame or an error frame for the identifier of the
  request. The promise of the dispatcher is never rejected: when the pipeline throws,
  the handler of line 197 writes the error frame for the message of what was thrown,
  after whatever the pipeline had done to the state before it threw.
\<close>

theorem render_request_one_response:
  assumes "req_type r = ''request''"
  shows "fst (processAll env r s) = Inr ()
    \<and> (\<exists>line. stdout (snd (processAll env r s)) = stdout s @ [line]
          \<and> ((\<exists>w h d. line = image_frame env (req_identifier r) w h d)
               \<or> (\<exists>m. line = error_frame (req_identifier r) m)))
    \<and> (\<forall>err s0. processEquation env (req_identifier r) (req_data r) (req_cellWidth r)
                    (req_cellHeight r) (req_width r) (req_height r) (req_flags r) (req_color r) s
                  = (Inl err, s0)
          \<longrightarrow> processAll env r s
                = (Inr (), s0\<lparr>stdout := stdout s @ [error_frame (req_identifier r) (message err)]\<rparr>))"
proof -
  obtain res s1 where pa: "processAll env r s = (res, s1)" by (cases "processAll env r s")
  note paths = processAll_render_paths [OF assms pa]
  have one: "fst (processAll env r s) = Inr ()" using paths pa by simp
  have line: "\<exists>line. stdout (snd (processAll env r s)) = stdout s @ [line]
          \<and> ((\<exists>w h d. line = image_frame env (req_identifier r) w h d)
               \<or> (\<exists>m. line = error_frame (req_identifier r) m))"
  proof -
    have "(\<exists>m. stdout s1 = stdout s @ [error_frame (req_identifier r) m])
        \<or> (\<exists>w h d. stdout s1 = stdout s @ [image_frame env (req_identifier r) w h d])"
      using paths
    proof (elim conjE disjE exE)
      fix obj
      assume "s1 = write_image env (req_identifier r) (eq_width obj) (eq_height obj) (eq_filename obj) s"
      then have "stdout s1 = stdout s @ [image_frame env (req_identifier r) (eq_width obj) (eq_height obj) (eq_filename obj)]"
        by (simp add: write_image_def)
      then show ?thesis by blast
    qed blast+
    then show ?thesis using pa by auto
  qed
  have caught: "processAll env r s
                = (Inr (), s0\<lparr>stdout := stdout s @ [error_frame (req_identifier r) (message err)]\<rparr>)"
    if pe: "processEquation env (req_identifier r) (req_data r) (req_cellWidth r)
                    (req_cellHeight r) (req_width r) (req_height r) (req_flags r) (req_color r) s
                  = (Inl err, s0)" for err s0
  proof -
    have "stdout s0 = stdout s" using processEquation_paths [OF pe] by auto
    then show ?thesis using assms pe by (simp add: processAll_def writeError_def)
  qed
  show ?thesis using one line caught by blast
qed

theorem render_request_one_response_witness:
  "fst (processAll demo_env demo_request init_state) = Inr ()
   \<and> stdout (snd (processAll demo_env demo_request init_state))
       = [''1:image:1:1:40:/tmp/nvim-mdmath-a1b2c3/9f86d08_8x16.png'']
   \<and> fst (processEquation demo_env ''1'' ''y'' 8 16 1 1 0 ''#ffffff'' init_state)
       = Inl (Error ''rsvg-convert failed'')
   \<and> fst (processAll demo_env (demo_request\<lparr>req_data := ''y''\<rparr>) init_state) = Inr ()
   \<and> stdout (snd (processAll demo_env (demo_request\<lparr>req_data := ''y''\<rparr>) init_state))
       = [''1:error:0:0:19:rsvg-convert failed'']"
proof -
  let ?y = "demo_request\<lparr>req_data := ''y''\<rparr>"
  have t: "req_type demo_request = ''request''" "req_type ?y = ''request''"
    by (simp_all add: demo_request_def)
  have a: "stdout (snd (processAll demo_env demo_request init_state))
       = [''1:image:1:1:40:/tmp/nvim-mdmath-a1b2c3/9f86d08_8x16.png'']"
    by code_simp
  have b: "fst (processEquation demo_env ''1'' ''y'' 8 16 1 1 0 ''#ffffff'' init_state)
       = Inl (Error ''rsvg-convert failed'')"
    by code_simp
  have c: "stdout (snd (processAll demo_env ?y init_state)) = [''1:error:0:0:19:rsvg-convert failed'']"
    by code_simp
  from render_request_one_response [OF t(1), of demo_env init_state]
  have "fst (processAll demo_env demo_request init_state) = Inr ()" by blast
  moreover from render_request_one_response [OF t(2), of demo_env init_state]
  have "fst (processAll demo_env ?y init_state) = Inr ()" by blast
  ultimately show ?thesis using a b c by simp
qed

subsection \<open>A failed render stores nothing\<close>

lemma ran_upd_subset: "ran (m(k \<mapsto> v)) \<subseteq> insert v (ran m)"
  by (auto simp: ran_def split: if_splits)

lemma stored_artifacts_written:
  assumes "stored env equation key s s1 obj" and "artifacts_written s"
  shows "artifacts_written s1"
proof -
  have "ran (equationMap s1) \<subseteq> insert obj (ran (equationMap s))"
    using assms(1) ran_upd_subset [of "equationMap s" key obj] by (simp add: stored_def)
  then show ?thesis
    using assms unfolding artifacts_written_def stored_def by auto
qed

lemma processAll_artifacts_written:
  assumes "artifacts_written s"
  shows "artifacts_written (snd (processAll env r s))"
proof (cases "req_type r = ''request''")
  case True
  obtain res s1 where pa: "processAll env r s = (res, s1)" by (cases "processAll env r s")
  have "artifacts_written s1"
    using processAll_render_paths [OF True pa]
  proof (elim conjE disjE exE)
    fix obj
    assume "s1 = write_image env (req_identifier r) (eq_width obj) (eq_height obj) (eq_filename obj) s"
    then show ?thesis using assms by (simp add: write_image_def artifacts_written_def)
  next
    fix obj
    assume "stored env (req_data r) (equation_key (req_data r) (req_cellWidth r) (req_cellHeight r)
                         (req_width r) (req_height r) (req_flags r) (req_color r)) s s1 obj"
    then show ?thesis using assms by (rule stored_artifacts_written)
  next
    assume "equations s1 = equations s" "equationMap s1 = equationMap s" "files s1 = files s"
    then show ?thesis using assms by (simp add: artifacts_written_def)
  qed
  then show ?thesis using pa by simp
next
  case False
  then show ?thesis using assms by (simp add: processAll_def artifacts_written_def)
qed

text \<open>
  Claim C10. When a render request is answered with an error frame, the rendered-image
  cache and the cleanup list are the ones before the request. Whenever one of the two
  changes, both get the same new entry, and that entry names the file that the last
  invocation, a \<open>pngFitTo\<close> that returned, has just written. So every entry of the
  cache is on the cleanup list and every file on the cleanup list was written: this
  holds at the start and is kept by every request.
\<close>

theorem failed_render_stores_nothing:
  assumes "req_type r = ''request''" and "processAll env r s = (res, s1)"
  shows "((\<exists>m. stdout s1 = stdout s @ [error_frame (req_identifier r) m])
            \<longrightarrow> equationMap s1 = equationMap s \<and> equations s1 = equations s)
       \<and> ((equationMap s1 = equationMap s \<and> equations s1 = equations s)
            \<or> (\<exists>obj. stored env (req_data r)
                   (equation_key (req_data r) (req_cellWidth r) (req_cellHeight r)
                      (req_width r) (req_height r) (req_flags r) (req_color r)) s s1 obj))
       \<and> (artifacts_written s \<longrightarrow> artifacts_written s1)
       \<and> artifacts_written init_state
       \<and> (\<forall>env' r' s'. artifacts_written s' \<longrightarrow> artifacts_written (snd (processAll env' r' s')))"
proof -
  note paths = processAll_render_paths [OF assms]
  have a: "equationMap s1 = equationMap s \<and> equations s1 = equations s"
    if "stdout s1 = stdout s @ [error_frame (req_identifier r) m]" for m
    using paths
  proof (elim conjE disjE exE)
    fix obj
    assume "s1 = write_image env (req_identifier r) (eq_width obj) (eq_height obj) (eq_filename obj) s"
    then show ?thesis by (simp add: write_image_def)
  next
    fix obj
    assume "stdout s1 = stdout s @ [image_frame env (req_identifier r) (eq_width obj) (eq_height obj) (eq_filename obj)]"
    then show ?thesis using that error_frame_not_image by simp
  qed simp
  have b: "(equationMap s1 = equationMap s \<and> equations s1 = equations s)
            \<or> (\<exists>obj. stored env (req_data r)
                   (equation_key (req_data r) (req_cellWidth r) (req_cellHeight r)
                      (req_width r) (req_height r) (req_flags r) (req_color r)) s s1 obj)"
    using paths
  proof (elim conjE disjE exE)
    fix obj
    assume "s1 = write_image env (req_identifier r) (eq_width obj) (eq_height obj) (eq_filename obj) s"
    then show ?thesis by (simp add: write_image_def)
  qed blast+
  have c: "artifacts_written s \<longrightarrow> artifacts_written s1"
    using processAll_artifacts_written [of s env r] assms(2) by simp
  have d: "artifacts_written init_state"
    by (simp add: artifacts_written_def init_state_def)
  have e: "artifacts_written s' \<longrightarrow> artifacts_written (snd (processAll env' r' s'))" for env' r' s'
    using processAll_artifacts_written [of s' env' r'] by blast
  show ?thesis using a b c d e by blast
qed

theorem failed_render_stores_nothing_witness:
  "stdout (snd (processAll demo_env (demo_request\<lparr>req_data := ''y''\<rparr>) init_state))
     = stdout init_state @ [error_frame ''1'' ''rsvg-convert failed'']
   \<and> equationMap (snd (processAll demo_env (demo_request\<lparr>req_data := ''y''\<rparr>) init_state))
       = equationMap init_state
   \<and> equations (snd (processAll demo_env (demo_request\<lparr>req_data := ''y''\<rparr>) init_state))
       = equations init_state
   \<and> (\<exists>obj. stored demo_env ''x^2'' (equation_key ''x^2'' 8 16 1 1 0 ''#ffffff'') init_state
             (snd (processAll demo_env demo_request init_state)) obj)
   \<and> artifacts_written init_state
   \<and> artifacts_written (snd (processAll demo_env demo_request init_state))"
proof -
  let ?y = "demo_request\<lparr>req_data := ''y''\<rparr>"
  have t: "req_type ?y = ''request''" "req_type demo_request = ''request''"
    by (simp_all add: demo_request_def)
  have e: "stdout (snd (processAll demo_env ?y init_state))
     = stdout init_state @ [error_frame ''1'' ''rsvg-convert failed'']"
    by code_simp
  have i: "req_identifier ?y = ''1''" by (simp add: demo_request_def)
  have n: "equations (snd (processAll demo_env demo_request init_state)) \<noteq> equations init_state"
    by code_simp
  have w: "artifacts_written init_state" by (simp add: artifacts_written_def init_state_def)
  have f: "req_data demo_request = ''x^2''" "req_cellWidth demo_request = 8"
    "req_cellHeight demo_request = 16" "req_width demo_request = 1" "req_height demo_request = 1"
    "req_flags demo_request = 0" "req_color demo_request = ''#ffffff''"
    by (simp_all add: demo_request_def)
  from failed_render_stores_nothing [OF t(1), of demo_env init_state
      "fst (processAll demo_env ?y init_state)" "snd (processAll demo_env ?y init_state)"] e i
  have y: "equationMap (snd (processAll demo_env ?y init_state)) = equationMap init_state
     \<and> equations (snd (processAll demo_env ?y init_state)) = equations init_state"
    by auto
  from failed_render_stores_nothing [OF t(2), of demo_env init_state
      "fst (processAll demo_env demo_request init_state)"
      "snd (processAll demo_env demo_request init_state)"] n w
  have x: "(\<exists>obj. stored demo_env (req_data demo_request)
                   (equation_key (req_data demo_request) (req_cellWidth demo_request)
                      (req_cellHeight demo_request) (req_width demo_request)
                      (req_height demo_request) (req_flags demo_request)
                      (req_color demo_request)) init_state
             (snd (processAll demo_env demo_request init_state)) obj)
     \<and> artifacts_written (snd (processAll demo_env demo_request init_state))"
    by auto
  show ?thesis using e y x w unfolding f by blast
qed

subsection \<open>The key of the rendered-image cache\<close>

lemma digit_char_in: "d < 10 \<Longrightarrow> digit_char d \<in> set ''0123456789''"
  unfolding digit_char_def by (rule nth_mem) simp

lemma digit_char_inj:
  assumes "d < 10" and "e < 10" and "digit_char d = digit_char e"
  shows "d = e"
proof -
  have "distinct ''0123456789''" by simp
  moreover have "d < length ''0123456789''" "e < length ''0123456789''" using assms by simp_all
  ultimately show ?thesis using assms(3) unfolding digit_char_def
    by (simp only: nth_eq_iff_index_eq)
qed

lemma show_nat_nonempty: "show_nat n \<noteq> []"
  by (subst show_nat.simps) simp

lemma show_nat_digits: "set (show_nat n) \<subseteq> set ''0123456789''"
proof (induction n rule: show_nat.induct)
  case (1 n)
  show ?case
  proof (cases "n < 10")
    case True
    then show ?thesis using digit_char_in [of n] by (subst show_nat.simps) simp
  next
    case False
    have "n mod 10 < 10" by simp
    then have "digit_char (n mod 10) \<in> set ''0123456789''" by (rule digit_char_in)
    then show ?thesis using False "1.IH" by (subst show_nat.simps) simp
  qed
qed

lemma show_nat_small: "n < 10 \<Longrightarrow> show_nat n = [digit_char n]"
  by (subst show_nat.simps) simp

lemma show_nat_large:
  "\<not> n < 10 \<Longrightarrow> show_nat n = show_nat (n div 10) @ [digit_char (n mod 10)]"
  by (subst show_nat.simps) simp

lemma show_nat_length: "length (show_nat n) = 1 \<longleftrightarrow> n < 10"
proof (cases "n < 10")
  case True
  then show ?thesis by (simp add: show_nat_small)
next
  case False
  have "length (show_nat (n div 10)) \<noteq> 0" using show_nat_nonempty [of "n div 10"] by simp
  then show ?thesis using False by (simp add: show_nat_large)
qed

lemma show_nat_inj: "show_nat n = show_nat m \<Longrightarrow> n = m"
proof (induction n arbitrary: m rule: show_nat.induct)
  case (1 n)
  have same: "n < 10 \<longleftrightarrow> m < 10"
    using arg_cong [OF "1.prems", of length] show_nat_length [of n] show_nat_length [of m]
    by simp
  show ?case
  proof (cases "n < 10")
    case True
    then have "m < 10" using same by simp
    then have "digit_char n = digit_char m"
      using "1.prems" True by (simp add: show_nat_small)
    then show ?thesis using True \<open>m < 10\<close> by (rule digit_char_inj [rotated 2])
  next
    case False
    then have m: "\<not> m < 10" using same by simp
    have "show_nat (n div 10) @ [digit_char (n mod 10)]
        = show_nat (m div 10) @ [digit_char (m mod 10)]"
      using "1.prems" unfolding show_nat_large [OF False] show_nat_large [OF m] .
    then have e: "show_nat (n div 10) = show_nat (m div 10)"
      and d: "digit_char (n mod 10) = digit_char (m mod 10)"
      by simp_all
    have q: "n div 10 = m div 10" using False e by (rule "1.IH")
    have r: "n mod 10 = m mod 10"
    proof (rule digit_char_inj)
      show "n mod 10 < 10" "m mod 10 < 10" by simp_all
      show "digit_char (n mod 10) = digit_char (m mod 10)" by (rule d)
    qed
    have "n = 10 * (n div 10) + n mod 10" by simp
    also have "\<dots> = 10 * (m div 10) + m mod 10" unfolding q r ..
    also have "\<dots> = m" by simp
    finally show ?thesis .
  qed
qed


lemma show_nat_no_sep:
  "CHR ''-'' \<notin> set (show_nat n)" "CHR ''_'' \<notin> set (show_nat n)"
  "CHR ''*'' \<notin> set (show_nat n)" "CHR ''x'' \<notin> set (show_nat n)"
proof -
  have "CHR ''-'' \<notin> set ''0123456789''" "CHR ''_'' \<notin> set ''0123456789''"
    "CHR ''*'' \<notin> set ''0123456789''" "CHR ''x'' \<notin> set ''0123456789''"
    by simp_all
  then show "CHR ''-'' \<notin> set (show_nat n)" "CHR ''_'' \<notin> set (show_nat n)"
    "CHR ''*'' \<notin> set (show_nat n)" "CHR ''x'' \<notin> set (show_nat n)"
    using show_nat_digits [of n] by blast+
qed

lemma show_int_inj: "show_int i = show_int j \<Longrightarrow> i = j"
proof -
  assume eq: "show_int i = show_int j"
  have hd: "show_nat k \<noteq> CHR ''-'' # t" for k t using show_nat_no_sep(1) [of k] by auto
  show "i = j"
  proof (cases "i < 0")
    case i: True
    show ?thesis
    proof (cases "j < 0")
      case True
      then have "nat (- i) = nat (- j)" using eq i by (auto simp: show_int_def dest: show_nat_inj)
      then show ?thesis using i True by simp
    next
      case False
      then show ?thesis using eq i hd [of "nat j" "show_nat (nat (- i))"] by (simp add: show_int_def)
    qed
  next
    case i: False
    show ?thesis
    proof (cases "j < 0")
      case True
      then show ?thesis using eq i hd [of "nat i" "show_nat (nat (- j))"] by (simp add: show_int_def)
    next
      case False
      then have "nat i = nat j" using eq i by (auto simp: show_int_def dest: show_nat_inj)
      then show ?thesis using i False by simp
    qed
  qed
qed

lemma show_int_eq_iff: "show_int i = show_int j \<longleftrightarrow> i = j"
  using show_int_inj by blast

lemma split_at_last:
  assumes "a @ sep # b = a' @ sep # b'" and "sep \<notin> set b" and "sep \<notin> set b'"
  shows "a = a' \<and> b = b'"
proof -
  have "rev b @ sep # rev a = rev b' @ sep # rev a'"
    using arg_cong [OF assms(1), of rev] by simp
  then have "takeWhile (\<lambda>c. c \<noteq> sep) (rev b @ sep # rev a)
      = takeWhile (\<lambda>c. c \<noteq> sep) (rev b' @ sep # rev a')" by simp
  moreover have "takeWhile (\<lambda>c. c \<noteq> sep) (rev b @ sep # rev a) = rev b"
    using assms(2) by (auto simp: takeWhile_tail)
  moreover have "takeWhile (\<lambda>c. c \<noteq> sep) (rev b' @ sep # rev a') = rev b'"
    using assms(3) by (auto simp: takeWhile_tail)
  ultimately have "b = b'" by simp
  then show ?thesis using assms(1) by simp
qed

lemma show_int_no_sep:
  "CHR ''_'' \<notin> set (show_int i)" "CHR ''*'' \<notin> set (show_int i)" "CHR ''x'' \<notin> set (show_int i)"
  using show_nat_no_sep [of "nat i"] show_nat_no_sep [of "nat (- i)"]
  by (simp_all add: show_int_def)

lemma equation_key_eqD:
  assumes "CHR ''_'' \<notin> set color" and "CHR ''_'' \<notin> set color'"
    and "equation_key equation cWidth cHeight width height flags color
       = equation_key equation' cWidth' cHeight' width' height' flags' color'"
  shows "equation = equation' \<and> cWidth = cWidth' \<and> width = width' \<and> cHeight = cHeight'
    \<and> height = height' \<and> flags = flags' \<and> color = color'"
proof -
  let ?E = "\<lambda>e cw. e @ CHR ''_'' # show_int cw"
  let ?D = "\<lambda>e cw w. ?E e cw @ CHR ''*'' # show_int w"
  let ?C = "\<lambda>e cw w ch. ?D e cw w @ CHR ''x'' # show_int ch"
  let ?B = "\<lambda>e cw w ch h. ?C e cw w ch @ CHR ''*'' # show_int h"
  let ?A = "\<lambda>e cw w ch h f. ?B e cw w ch h @ CHR ''_'' # show_int f"
  have key: "equation_key e cw ch w h f c = ?A e cw w ch h f @ CHR ''_'' # c" for e cw ch w h f c
    by (simp add: equation_key_def)
  from assms(3) have "?A equation cWidth width cHeight height flags @ CHR ''_'' # color
      = ?A equation' cWidth' width' cHeight' height' flags' @ CHR ''_'' # color'"
    unfolding key .
  from split_at_last [OF this assms(1,2)]
  have a: "?A equation cWidth width cHeight height flags = ?A equation' cWidth' width' cHeight' height' flags'"
    and color: "color = color'" by simp_all
  from split_at_last [OF a show_int_no_sep(1) show_int_no_sep(1)]
  have b: "?B equation cWidth width cHeight height = ?B equation' cWidth' width' cHeight' height'"
    and flags: "flags = flags'" by (simp_all add: show_int_eq_iff)
  from split_at_last [OF b show_int_no_sep(2) show_int_no_sep(2)]
  have c: "?C equation cWidth width cHeight = ?C equation' cWidth' width' cHeight'"
    and height: "height = height'" by (simp_all add: show_int_eq_iff)
  from split_at_last [OF c show_int_no_sep(3) show_int_no_sep(3)]
  have d: "?D equation cWidth width = ?D equation' cWidth' width'"
    and cHeight: "cHeight = cHeight'" by (simp_all add: show_int_eq_iff)
  from split_at_last [OF d show_int_no_sep(2) show_int_no_sep(2)]
  have e: "?E equation cWidth = ?E equation' cWidth'"
    and width: "width = width'" by (simp_all add: show_int_eq_iff)
  from split_at_last [OF e show_int_no_sep(1) show_int_no_sep(1)]
  have "equation = equation'" and "cWidth = cWidth'" by (simp_all add: show_int_eq_iff)
  then show ?thesis using color flags height cHeight width by simp
qed

text \<open>
  Claim C6, as amended. Among requests whose color has no underscore, the key of the
  rendered-image cache is injective: two requests with the same key have the same
  equation, cell width, width, cell height, height, flags and color, so two requests
  that differ in one of them have distinct keys and distinct entries.
\<close>

theorem equation_key_injective:
  assumes "CHR ''_'' \<notin> set color" and "CHR ''_'' \<notin> set color'"
    and "equation_key equation cWidth cHeight width height flags color
       = equation_key equation' cWidth' cHeight' width' height' flags' color'"
  shows "equation = equation' \<and> cWidth = cWidth' \<and> width = width' \<and> cHeight = cHeight'
    \<and> height = height' \<and> flags = flags' \<and> color = color'"
  using assms by (rule equation_key_eqD)

theorem equation_key_injective_witness:
  "equation_key ''x^2'' 8 16 1 1 0 ''#ffffff'' \<noteq> equation_key ''x^2'' 8 16 1 1 1 ''#ffffff''
   \<and> equation_key ''x_1'' 8 16 1 1 0 ''#ffffff'' \<noteq> equation_key ''x'' 18 16 1 1 0 ''#ffffff''"
  using equation_key_injective [of "''#ffffff''" "''#ffffff''" "''x^2''" 8 16 1 1 0 "''x^2''" 8 16 1 1 1]
    equation_key_injective [of "''#ffffff''" "''#ffffff''" "''x_1''" 8 16 1 1 0 "''x''" 18 16 1 1 0]
  by auto

text \<open>
  The claim as it stands puts no condition on the color. The key is the concatenation of
  the fields with the separators \<open>_\<close>, \<open>*\<close> and \<open>x\<close>, so a color that holds an
  underscore can end like the tail of another key: the two requests below differ in
  equation and color and have one key, and the second is answered from the entry of the
  first without any invocation.
\<close>

theorem equation_key_collision:
  "equation_key ''x^2'' 8 16 1 1 0 ''#fff_8*1x16*1_0_#000''
     = equation_key ''x^2_8*1x16*1_0_#fff'' 8 16 1 1 0 ''#000''
   \<and> ''x^2'' \<noteq> ''x^2_8*1x16*1_0_#fff''
   \<and> stdout (snd (processAll demo_env
        (demo_request\<lparr>req_identifier := ''2'', req_data := ''x^2_8*1x16*1_0_#fff'',
                       req_color := ''#000''\<rparr>)
        (snd (processAll demo_env (demo_request\<lparr>req_color := ''#fff_8*1x16*1_0_#000''\<rparr>)
                init_state))))
     = [''1:image:1:1:40:/tmp/nvim-mdmath-a1b2c3/9f86d08_8x16.png'',
        ''2:image:1:1:40:/tmp/nvim-mdmath-a1b2c3/9f86d08_8x16.png'']
   \<and> calls (snd (processAll demo_env
        (demo_request\<lparr>req_identifier := ''2'', req_data := ''x^2_8*1x16*1_0_#fff'',
                       req_color := ''#000''\<rparr>)
        (snd (processAll demo_env (demo_request\<lparr>req_color := ''#fff_8*1x16*1_0_#000''\<rparr>)
                init_state))))
     = calls (snd (processAll demo_env (demo_request\<lparr>req_color := ''#fff_8*1x16*1_0_#000''\<rparr>)
                init_state))"
  by code_simp

subsection \<open>A repeated render request\<close>

lemma svgCache_get_cong: "svgCache u = svgCache s \<Longrightarrow> svgCache_get u equation = svgCache_get s equation"
  by (simp add: svgCache_get_def)

lemma equationToSVG_cached:
  "svgCache_get u equation = Some r \<Longrightarrow> equationToSVG env equation u = (Inr r, u)"
  by (simp add: equationToSVG_def)

lemma equationToSVG_Inr:
  assumes "equationToSVG env equation s = (Inr r, s1)"
  shows "svgCache_get s1 equation = Some r"
  using assms
  by (auto simp: equationToSVG_def svgCache_get_def Let_def
      split: option.splits sum.splits js_error.splits if_splits)

lemma equationToSVG_Inl:
  assumes "equationToSVG env equation s = (Inl err, s1)"
  shows "calls s1 = calls s @ [Tex2svg equation] \<and> tooling_failure env (Tex2svg equation)"
  using assms
  by (auto simp: equationToSVG_def Let_def split: option.splits sum.splits js_error.splits)

lemma sizeDynamic_Inl:
  assumes "sizeDynamic env markup cWidth cHeight width height s = (Inl err, s1)"
  shows "\<exists>t c. calls s1 = calls s @ t \<and> c \<in> set t \<and> tooling_failure env c"
proof -
  let ?z = "Number_divide
              (Number_multiply
                 (Number_multiply (Number_multiply (Fin 10) (dynamicScale s))
                    (number_of_int cHeight))
                 (internalScale s))
              (Fin 96)"
  show ?thesis
  proof (cases "rsvgConvert env markup (Zoom ?z)")
    case (Inl e)
    then have "calls s1 = calls s @ [RsvgConvert markup (Zoom ?z)]"
      and "tooling_failure env (RsvgConvert markup (Zoom ?z))"
      using assms by (auto simp: sizeDynamic_def Let_def)
    then show ?thesis by (intro exI [of _ "[RsvgConvert markup (Zoom ?z)]"] exI [of _ "RsvgConvert markup (Zoom ?z)"]) simp
  next
    case (Inr basePNG)
    then have "calls s1 = calls s @ [RsvgConvert markup (Zoom ?z), PngDimensions basePNG]"
      and "tooling_failure env (PngDimensions basePNG)"
      using assms by (auto simp: sizeDynamic_def Let_def split: sum.splits prod.splits)
    then show ?thesis
      by (intro exI [of _ "[RsvgConvert markup (Zoom ?z), PngDimensions basePNG]"]
            exI [of _ "PngDimensions basePNG"]) simp
  qed
qed

lemma sizeFixed_Inl:
  assumes "sizeFixed env markup cWidth cHeight width height s = (Inl err, s1)"
  shows "\<exists>t c. calls s1 = calls s @ t \<and> c \<in> set t \<and> tooling_failure env c"
proof -
  let ?c = "RsvgConvert markup
      (Size (Number_multiply (Number_multiply (number_of_int width) (number_of_int cWidth))
               (internalScale s))
            (Number_multiply (Number_multiply (number_of_int height) (number_of_int cHeight))
               (internalScale s)))"
  have "calls s1 = calls s @ [?c]" and "tooling_failure env ?c"
    using assms by (auto simp: sizeFixed_def Let_def split: sum.splits)
  then show ?thesis by (intro exI [of _ "[?c]"] exI [of _ ?c]) simp
qed

lemma materialize_Inl_call:
  assumes "materialize env identifier equation key flags basePNG width height iWidth iHeight s
             = (Inl err, s1)"
  shows "\<exists>c. calls s1 = calls s @ [c] \<and> tooling_failure env c"
  using assms
  by (auto simp: materialize_def Let_def write_image_def split: sum.splits)

text \<open>
  A run of the pipeline in which no collaborator failed, and the same call again in any
  state with the same two caches: the same frame is written, or the same error is
  thrown, and the state is otherwise left as it is.
\<close>

lemma processEquation_repeat:
  assumes pe: "processEquation env identifier equation cWidth cHeight width height flags color s
                 = (res, s1)"
    and c: "calls s1 = calls s @ t" and ok: "\<forall>x\<in>set t. \<not> tooling_failure env x"
  shows "(res = Inr ()
          \<and> (\<exists>payload. stdout s1 = stdout s @ [identifier @ payload]
                \<and> (\<forall>i u. equationMap u = equationMap s1 \<and> svgCache u = svgCache s1
                      \<longrightarrow> processEquation env i equation cWidth cHeight width height flags color u
                            = (Inr (), u\<lparr>stdout := stdout u @ [i @ payload]\<rparr>))))
       \<or> (\<exists>err. res = Inl err \<and> stdout s1 = stdout s
              \<and> (\<forall>i u. equationMap u = equationMap s1 \<and> svgCache u = svgCache s1
                    \<longrightarrow> processEquation env i equation cWidth cHeight width height flags color u
                          = (Inl err, u)))"
proof (cases "equation = [] \<or> length (trim equation) = 0")
  case True
  have a: "res = Inr ()"
    and b: "stdout s1 = stdout s @ [identifier @ error_payload ''Empty equation'']"
    using pe True by (auto simp: processEquation_def writeError_def error_frame_payload)
  have "processEquation env i equation cWidth cHeight width height flags color u
          = (Inr (), u\<lparr>stdout := stdout u @ [i @ error_payload ''Empty equation'']\<rparr>)" for i u
    using True by (simp add: processEquation_def writeError_def error_frame_payload)
  then show ?thesis using a b by blast
next
  case nonblank: False
  let ?k = "equation_key equation cWidth cHeight width height flags color"
  have hit: "processEquation env i equation cWidth cHeight width height flags color u
          = (Inr (), u\<lparr>stdout := stdout u
               @ [i @ image_payload env (eq_width obj) (eq_height obj) (eq_filename obj)]\<rparr>)"
    if "equationMap u ?k = Some obj" for i u obj
    using processEquation_hit [OF nonblank that, of env i]
    by (simp add: write_image_def image_frame_payload)
  show ?thesis
  proof (cases "equationMap s ?k")
    case (Some obj)
    have a: "res = Inr ()"
      and b: "stdout s1 = stdout s
                @ [identifier @ image_payload env (eq_width obj) (eq_height obj) (eq_filename obj)]"
      and m: "equationMap s1 ?k = Some obj"
      using pe hit [OF Some, of "identifier"] Some by auto
    have "processEquation env i equation cWidth cHeight width height flags color u
          = (Inr (), u\<lparr>stdout := stdout u
               @ [i @ image_payload env (eq_width obj) (eq_height obj) (eq_filename obj)]\<rparr>)"
      if "equationMap u = equationMap s1" for i u
      using hit [of u obj i] m that by simp
    then show ?thesis using a b by blast
  next
    case None
    obtain r0 s0 where ts: "equationToSVG env equation s = (r0, s0)"
      by (cases "equationToSVG env equation s")
    note f0 = equationToSVG_frame [OF ts]
    obtain t0 where t0: "calls s0 = calls s @ t0" using f0 by blast
    show ?thesis
    proof (cases r0)
      case (Inl err)
      have "s1 = s0" using pe nonblank None ts Inl by (simp add: processEquation_def)
      then have "t = [Tex2svg equation]" and "tooling_failure env (Tex2svg equation)"
        using equationToSVG_Inl [of env equation s err s0] ts Inl c by simp_all
      then show ?thesis using ok by simp
    next
      case (Inr r)
      have cached: "svgCache_get s0 equation = Some r"
        using equationToSVG_Inr [of env equation s r s0] ts Inr by simp
      have again: "equationToSVG env equation u = (Inr r, u)" if "svgCache u = svgCache s0" for u
        using equationToSVG_cached [of u equation r env] svgCache_get_cong [OF that, of equation] cached
        by simp
      show ?thesis
      proof (cases "ts_svg r = None \<or> ts_svg r = Some []")
        case True
        have first: "(res, s1) = writeError identifier (ts_error r) s0"
          using pe nonblank None ts Inr True by (auto simp: processEquation_def split: option.splits)
        have second: "processEquation env i equation cWidth cHeight width height flags color u
            = writeError i (ts_error r) u"
          if "equationMap u = equationMap s0" and "svgCache u = svgCache s0" for i u
          using nonblank None f0 that again [OF that(2)] True
          by (auto simp: processEquation_def split: option.splits)
        show ?thesis
        proof (cases "ts_error r")
          case None
          have a: "res = Inl (TypeError undefined_length_message)" and b: "s1 = s0"
            using first None by (simp_all add: writeError_def)
          have "processEquation env i equation cWidth cHeight width height flags color u
              = (Inl (TypeError undefined_length_message), u)"
            if "equationMap u = equationMap s1 \<and> svgCache u = svgCache s1" for i u
            using second [of u i] that b None by (simp add: writeError_def)
          then show ?thesis using a b f0 by blast
        next
          case (Some m)
          have a: "res = Inr ()"
            and b: "s1 = s0\<lparr>stdout := stdout s0 @ [identifier @ error_payload m]\<rparr>"
            using first Some by (simp_all add: writeError_def error_frame_payload)
          have "processEquation env i equation cWidth cHeight width height flags color u
              = (Inr (), u\<lparr>stdout := stdout u @ [i @ error_payload m]\<rparr>)"
            if "equationMap u = equationMap s1 \<and> svgCache u = svgCache s1" for i u
            using second [of u i] that b Some by (simp add: writeError_def error_frame_payload)
          moreover have "stdout s1 = stdout s @ [identifier @ error_payload m]"
            using b f0 by simp
          ultimately show ?thesis using a by blast
        qed
      next
        case False
        then obtain markup where mk: "ts_svg r = Some markup" "markup \<noteq> []" by auto
        define sz where "sz = (if and flags 1 \<noteq> 0
                                   then sizeDynamic env (recolor color markup) cWidth cHeight width height s0
                                   else sizeFixed env (recolor color markup) cWidth cHeight width height s0)"
        obtain r2 s2 where szr: "sz = (r2, s2)" by (cases sz)
        have pe': "(res, s1) = (case sz of
                               (Inl err, s2) \<Rightarrow> (Inl err, s2)
                             | (Inr (basePNG, width', height', iWidth, iHeight), s2) \<Rightarrow>
                                 materialize env identifier equation ?k flags basePNG
                                   width' height' iWidth iHeight s2)"
          using pe nonblank None ts Inr mk unfolding sz_def
          by (simp add: processEquation_def Let_def)
        show ?thesis
        proof (cases r2)
          case (Inl err)
          have "s1 = s2" using pe' szr Inl by simp
          moreover obtain t2 x where "calls s2 = calls s0 @ t2" "x \<in> set t2" "tooling_failure env x"
            using szr Inl sizeDynamic_Inl sizeFixed_Inl unfolding sz_def by (metis (full_types))
          ultimately have "x \<in> set t" "tooling_failure env x" using c t0 by auto
          then show ?thesis using ok by blast
        next
          case (Inr tup)
          obtain basePNG w' h' iW iH where tup: "tup = (basePNG, w', h', iW, iH)" by (cases tup) auto
          have f2: "\<exists>t2. calls s2 = calls s0 @ t2 \<and> stdout s2 = stdout s0"
            using szr sizeDynamic_frame sizeFixed_frame unfolding sz_def by (metis (full_types))
          then obtain t2 where t2: "calls s2 = calls s0 @ t2" and o2: "stdout s2 = stdout s0" by blast
          have m: "materialize env identifier equation ?k flags basePNG w' h' iW iH s2 = (res, s1)"
            using pe' szr Inr tup by simp
          show ?thesis
          proof (cases res)
            case (Inl err)
            then obtain x where "calls s1 = calls s2 @ [x]" "tooling_failure env x"
              using materialize_Inl_call [of env "identifier" equation ?k flags basePNG w' h' iW iH s2 err s1] m
              by auto
            then have "x \<in> set t" "tooling_failure env x" using c t0 t2 by auto
            then show ?thesis using ok by blast
          next
            case (Inr u')
            from materialize_Inr [of env "identifier" equation ?k flags basePNG w' h' iW iH s2 u' s1] m Inr
            obtain obj where o: "eq_width obj = w'" "eq_height obj = h'"
              "equationMap s1 = (equationMap s2)(?k \<mapsto> obj)"
              "stdout s1 = stdout s2 @ [image_frame env identifier w' h' (eq_filename obj)]"
              by blast
            have a: "res = Inr ()" using Inr by simp
            have b: "stdout s1 = stdout s
                @ [identifier @ image_payload env (eq_width obj) (eq_height obj) (eq_filename obj)]"
              using o o2 f0 by (simp add: image_frame_payload)
            have "processEquation env i equation cWidth cHeight width height flags color u
                = (Inr (), u\<lparr>stdout := stdout u
                     @ [i @ image_payload env (eq_width obj) (eq_height obj) (eq_filename obj)]\<rparr>)"
              if "equationMap u = equationMap s1" for i u
              using hit [of u obj i] o(3) that by simp
            then show ?thesis using a b by blast
          qed
        qed
      qed
    qed
  qed
qed

lemma processAll_repeat:
  assumes "req_type r = ''request''" and pa: "processAll env r s = (res, s1)"
    and c: "calls s1 = calls s @ t" and ok: "\<forall>x\<in>set t. \<not> tooling_failure env x"
  shows "\<exists>payload. stdout s1 = stdout s @ [req_identifier r @ payload]
    \<and> (\<forall>i. processEquation env i (req_data r) (req_cellWidth r) (req_cellHeight r)
               (req_width r) (req_height r) (req_flags r) (req_color r) s1
             = (Inr (), s1\<lparr>stdout := stdout s1 @ [i @ payload]\<rparr>)
           \<or> (\<exists>err. processEquation env i (req_data r) (req_cellWidth r) (req_cellHeight r)
                      (req_width r) (req_height r) (req_flags r) (req_color r) s1
                    = (Inl err, s1) \<and> payload = error_payload (message err)))"
proof -
  obtain r0 s0 where pe: "processEquation env (req_identifier r) (req_data r)
                (req_cellWidth r) (req_cellHeight r) (req_width r)
                (req_height r) (req_flags r) (req_color r) s = (r0, s0)"
    by (cases "processEquation env (req_identifier r) (req_data r)
                (req_cellWidth r) (req_cellHeight r) (req_width r)
                (req_height r) (req_flags r) (req_color r) s")
  have c0: "calls s0 = calls s @ t"
    using processAll_calls [OF assms(1), of env s] pa pe c by simp
  from processEquation_repeat [OF pe c0 ok]
  show ?thesis
  proof (elim disjE conjE exE)
    fix payload
    assume a: "r0 = Inr ()" and b: "stdout s0 = stdout s @ [req_identifier r @ payload]"
      and again: "\<forall>i u. equationMap u = equationMap s0 \<and> svgCache u = svgCache s0
                      \<longrightarrow> processEquation env i (req_data r) (req_cellWidth r) (req_cellHeight r)
                              (req_width r) (req_height r) (req_flags r) (req_color r) u
                            = (Inr (), u\<lparr>stdout := stdout u @ [i @ payload]\<rparr>)"
    have "s1 = s0" using pa pe a assms(1) by (simp add: processAll_def)
    then show ?thesis using b again by blast
  next
    fix err
    assume a: "r0 = Inl err" and b: "stdout s0 = stdout s"
      and again: "\<forall>i u. equationMap u = equationMap s0 \<and> svgCache u = svgCache s0
                    \<longrightarrow> processEquation env i (req_data r) (req_cellWidth r) (req_cellHeight r)
                            (req_width r) (req_height r) (req_flags r) (req_color r) u
                          = (Inl err, u)"
    have s1: "s1 = s0\<lparr>stdout := stdout s0 @ [req_identifier r @ error_payload (message err)]\<rparr>"
      using pa pe a assms(1) by (simp add: processAll_def writeError_def error_frame_payload)
    then have "equationMap s1 = equationMap s0 \<and> svgCache s1 = svgCache s0" by simp
    then have "processEquation env i (req_data r) (req_cellWidth r) (req_cellHeight r)
                  (req_width r) (req_height r) (req_flags r) (req_color r) s1 = (Inl err, s1)" for i
      using again by blast
    moreover have "stdout s1 = stdout s @ [req_identifier r @ error_payload (message err)]"
      using s1 b by simp
    ultimately show ?thesis by blast
  qed
qed

text \<open>
  Claim C1, as amended. Take two render requests with the same equation, cell width,
  width, cell height, height, flags and color, the second processed in the state the
  first one left, and let no collaborator have failed while the first was processed (a
  \<open>MathError\<close> of the typesetter is not a failure). Then the second request invokes
  nothing and is answered with what the first was answered with, after its own
  identifier: the same width, height and file name, or the same error. And in whatever
  state the rendered-image cache holds an entry for the key of a request, the request is
  answered with the spans and the file name of that entry, and nothing is invoked.
\<close>

theorem repeated_request_from_cache:
  assumes "req_type r1 = ''request''" and "req_type r2 = ''request''"
    and "req_data r2 = req_data r1"
    and "req_cellWidth r2 = req_cellWidth r1" and "req_width r2 = req_width r1"
    and "req_cellHeight r2 = req_cellHeight r1" and "req_height r2 = req_height r1"
    and "req_flags r2 = req_flags r1" and "req_color r2 = req_color r1"
    and "processAll env r1 s = (res1, s1)"
    and "calls s1 = calls s @ t" and "\<forall>c\<in>set t. \<not> tooling_failure env c"
  shows "(\<exists>payload. stdout s1 = stdout s @ [req_identifier r1 @ payload]
            \<and> processAll env r2 s1
                = (Inr (), s1\<lparr>stdout := stdout s1 @ [req_identifier r2 @ payload]\<rparr>))
    \<and> calls (snd (processAll env r2 s1)) = calls s1
    \<and> (\<forall>w h f. stdout s1 = stdout s @ [image_frame env (req_identifier r1) w h f]
          \<longrightarrow> stdout (snd (processAll env r2 s1))
                = stdout s1 @ [image_frame env (req_identifier r2) w h f])
    \<and> (\<forall>env' u obj.
          \<not> (req_data r2 = [] \<or> length (trim (req_data r2)) = 0)
          \<and> equationMap u (equation_key (req_data r2) (req_cellWidth r2) (req_cellHeight r2)
                (req_width r2) (req_height r2) (req_flags r2) (req_color r2)) = Some obj
          \<longrightarrow> processAll env' r2 u
                = (Inr (), u\<lparr>stdout := stdout u
                     @ [image_frame env' (req_identifier r2) (eq_width obj) (eq_height obj)
                          (eq_filename obj)]\<rparr>))"
proof -
  from processAll_repeat [OF assms(1,10,11,12)]
  obtain payload where p: "stdout s1 = stdout s @ [req_identifier r1 @ payload]"
    and again: "processEquation env (req_identifier r2) (req_data r1) (req_cellWidth r1)
               (req_cellHeight r1) (req_width r1) (req_height r1) (req_flags r1) (req_color r1) s1
             = (Inr (), s1\<lparr>stdout := stdout s1 @ [req_identifier r2 @ payload]\<rparr>)
           \<or> (\<exists>err. processEquation env (req_identifier r2) (req_data r1) (req_cellWidth r1)
                      (req_cellHeight r1) (req_width r1) (req_height r1) (req_flags r1)
                      (req_color r1) s1
                    = (Inl err, s1) \<and> payload = error_payload (message err))"
    by blast
  have second: "processAll env r2 s1
                = (Inr (), s1\<lparr>stdout := stdout s1 @ [req_identifier r2 @ payload]\<rparr>)"
    using again assms(2-9)
    by (auto simp: processAll_def writeError_def error_frame_payload)
  have image: "stdout (snd (processAll env r2 s1))
                = stdout s1 @ [image_frame env (req_identifier r2) w h f]"
    if "stdout s1 = stdout s @ [image_frame env (req_identifier r1) w h f]" for w h f
  proof -
    have "payload = image_payload env w h f" using p that by (simp add: image_frame_payload)
    then show ?thesis using second by (simp add: image_frame_payload)
  qed
  have hit: "processAll env' r2 u
                = (Inr (), u\<lparr>stdout := stdout u
                     @ [image_frame env' (req_identifier r2) (eq_width obj) (eq_height obj)
                          (eq_filename obj)]\<rparr>)"
    if "\<not> (req_data r2 = [] \<or> length (trim (req_data r2)) = 0)"
      and "equationMap u (equation_key (req_data r2) (req_cellWidth r2) (req_cellHeight r2)
                (req_width r2) (req_height r2) (req_flags r2) (req_color r2)) = Some obj"
    for env' u obj
    using processEquation_hit [OF that, of env' "req_identifier r2"] assms(2)
    by (simp add: processAll_def write_image_def)
  show ?thesis using p second image hit by simp
qed

theorem repeated_request_from_cache_witness:
  "stdout (snd (processAll demo_env (demo_request\<lparr>req_identifier := ''2''\<rparr>)
                  (snd (processAll demo_env demo_request init_state))))
     = [''1:image:1:1:40:/tmp/nvim-mdmath-a1b2c3/9f86d08_8x16.png'',
        ''2:image:1:1:40:/tmp/nvim-mdmath-a1b2c3/9f86d08_8x16.png'']
   \<and> calls (snd (processAll demo_env (demo_request\<lparr>req_identifier := ''2''\<rparr>)
                  (snd (processAll demo_env demo_request init_state))))
     = calls (snd (processAll demo_env demo_request init_state))
   \<and> stdout (snd (processAll demo_env (demo_request\<lparr>req_identifier := ''2'', req_data := ''x^{''\<rparr>)
                  (snd (processAll demo_env (demo_request\<lparr>req_data := ''x^{''\<rparr>) init_state))))
     = [''1:error:0:0:19:Missing close brace'', ''2:error:0:0:19:Missing close brace'']
   \<and> calls (snd (processAll demo_env (demo_request\<lparr>req_identifier := ''2'', req_data := ''x^{''\<rparr>)
                  (snd (processAll demo_env (demo_request\<lparr>req_data := ''x^{''\<rparr>) init_state))))
     = [Tex2svg ''x^{'']"
proof -
  let ?a = "demo_request"
  let ?a' = "demo_request\<lparr>req_identifier := ''2''\<rparr>"
  let ?b = "demo_request\<lparr>req_data := ''x^{''\<rparr>"
  let ?b' = "demo_request\<lparr>req_identifier := ''2'', req_data := ''x^{''\<rparr>"
  let ?sa = "snd (processAll demo_env ?a init_state)"
  let ?sb = "snd (processAll demo_env ?b init_state)"
  let ?ta = "[Tex2svg ''x^2'',
              RsvgConvert (recolor ''#ffffff'' demo_markup) (Size (Fin 8) (Fin 16)),
              PngFitTo ''PNG'' ''/tmp/nvim-mdmath-a1b2c3/9f86d08_8x16.png'' (Fin 8) (Fin 16) False]"
  have pa: "processAll demo_env ?a init_state = (fst (processAll demo_env ?a init_state), ?sa)"
    and pb: "processAll demo_env ?b init_state = (fst (processAll demo_env ?b init_state), ?sb)"
    by simp_all
  have ca: "calls ?sa = calls init_state @ ?ta" by code_simp
  have cb: "calls ?sb = calls init_state @ [Tex2svg ''x^{'']" by code_simp
  have oka: "\<forall>c\<in>set ?ta. \<not> tooling_failure demo_env c" by code_simp
  have okb: "\<forall>c\<in>set [Tex2svg ''x^{'']. \<not> tooling_failure demo_env c" by code_simp
  have oa: "stdout ?sa = stdout init_state
              @ [req_identifier ?a @ '':image:1:1:40:/tmp/nvim-mdmath-a1b2c3/9f86d08_8x16.png'']"
    by code_simp
  have ob: "stdout ?sb = stdout init_state
              @ [req_identifier ?b @ '':error:0:0:19:Missing close brace'']"
    by code_simp
  have ida: "req_identifier ?a = ''1''" "req_identifier ?a' = ''2''"
    and idb: "req_identifier ?b = ''1''" "req_identifier ?b' = ''2''"
    and o0: "stdout init_state = []" "calls init_state = []"
    by (simp_all add: demo_request_def init_state_def)
  from repeated_request_from_cache [of ?a ?a' demo_env init_state _ ?sa ?ta, OF _ _ _ _ _ _ _ _ _ pa ca oka]
  have "(\<exists>payload. stdout ?sa = stdout init_state @ [req_identifier ?a @ payload]
            \<and> processAll demo_env ?a' ?sa
                = (Inr (), ?sa\<lparr>stdout := stdout ?sa @ [req_identifier ?a' @ payload]\<rparr>))
      \<and> calls (snd (processAll demo_env ?a' ?sa)) = calls ?sa"
    by (simp add: demo_request_def)
  then have a: "stdout (snd (processAll demo_env ?a' ?sa))
       = [''1:image:1:1:40:/tmp/nvim-mdmath-a1b2c3/9f86d08_8x16.png'',
          ''2:image:1:1:40:/tmp/nvim-mdmath-a1b2c3/9f86d08_8x16.png'']
     \<and> calls (snd (processAll demo_env ?a' ?sa)) = calls ?sa"
    unfolding oa ida o0 by auto
  from repeated_request_from_cache [of ?b ?b' demo_env init_state _ ?sb "[Tex2svg ''x^{'']",
      OF _ _ _ _ _ _ _ _ _ pb cb okb]
  have "(\<exists>payload. stdout ?sb = stdout init_state @ [req_identifier ?b @ payload]
            \<and> processAll demo_env ?b' ?sb
                = (Inr (), ?sb\<lparr>stdout := stdout ?sb @ [req_identifier ?b' @ payload]\<rparr>))
      \<and> calls (snd (processAll demo_env ?b' ?sb)) = calls ?sb"
    by (simp add: demo_request_def)
  then have b: "stdout (snd (processAll demo_env ?b' ?sb))
       = [''1:error:0:0:19:Missing close brace'', ''2:error:0:0:19:Missing close brace'']
     \<and> calls (snd (processAll demo_env ?b' ?sb)) = [Tex2svg ''x^{'']"
    unfolding ob idb cb o0 by auto
  show ?thesis using a b by blast
qed

text \<open>
  The claim as it stands asks this of any two such requests. A first request that failed
  in the rasterizer, or in the typesetter with anything but a \<open>MathError\<close>, left no
  entry, and the second request invokes the same collaborator again. And a first request
  that was answered with the error of a malformed equation left no entry either: when a
  request with the same key is rendered before the second one, the second one is
  answered with that image.
\<close>

theorem repeated_request_counterexample:
  "calls (snd (processAll demo_env (demo_request\<lparr>req_data := ''y''\<rparr>) init_state))
     = [Tex2svg ''y'', RsvgConvert ''<svg/>'' (Size (Fin 8) (Fin 16))]
   \<and> calls (snd (processAll demo_env (demo_request\<lparr>req_data := ''y''\<rparr>)
               (snd (processAll demo_env (demo_request\<lparr>req_data := ''y''\<rparr>) init_state))))
     = [Tex2svg ''y'', RsvgConvert ''<svg/>'' (Size (Fin 8) (Fin 16)),
        RsvgConvert ''<svg/>'' (Size (Fin 8) (Fin 16))]
   \<and> calls (snd (processAll demo_env (demo_request\<lparr>req_data := ''z''\<rparr>) init_state))
     = [Tex2svg ''z'']
   \<and> calls (snd (processAll demo_env (demo_request\<lparr>req_data := ''z''\<rparr>)
               (snd (processAll demo_env (demo_request\<lparr>req_data := ''z''\<rparr>) init_state))))
     = [Tex2svg ''z'', Tex2svg ''z'']
   \<and> stdout (snd (processAll demo_env
                (demo_request\<lparr>req_data := ''x^2_8*1x16*1_0_#fff'', req_color := ''#000''\<rparr>)
         (snd (processAll demo_env (demo_request\<lparr>req_color := ''#fff_8*1x16*1_0_#000''\<rparr>)
           (snd (processAll demo_env
                  (demo_request\<lparr>req_data := ''x^2_8*1x16*1_0_#fff'', req_color := ''#000''\<rparr>)
                  init_state))))))
     = [''1:error:0:0:40:Double subscripts: use braces to clarify'',
        ''1:image:1:1:40:/tmp/nvim-mdmath-a1b2c3/9f86d08_8x16.png'',
        ''1:image:1:1:40:/tmp/nvim-mdmath-a1b2c3/9f86d08_8x16.png'']"
  by code_simp

subsection \<open>The typeset cache\<close>

lemma svgCache_get_upd: "svgCache_get (s\<lparr>svgCache := (svgCache s)(equation \<mapsto> r)\<rparr>) equation = Some r"
  by (simp add: svgCache_get_def)


lemma svgCache_get_calls [simp]: "svgCache_get (s\<lparr>calls := c\<rparr>) equation = svgCache_get s equation"
  by (simp add: svgCache_get_def)





subsection \<open>The pixel box of the fixed mode\<close>

lemma equationToSVG_calls:
  assumes "equationToSVG env equation s = (res, s1)"
  shows "calls s1 = calls s \<or> calls s1 = calls s @ [Tex2svg equation]"
  using assms
  by (auto simp: equationToSVG_def Let_def split: option.splits sum.splits js_error.splits)

lemma sizeFixed_calls:
  assumes "sizeFixed env markup cWidth cHeight width height s = (res, s1)"
    and "iW = Number_multiply (Number_multiply (number_of_int width) (number_of_int cWidth))
                (internalScale s)"
    and "iH = Number_multiply (Number_multiply (number_of_int height) (number_of_int cHeight))
                (internalScale s)"
  shows "calls s1 = calls s @ [RsvgConvert markup (Size iW iH)]
    \<and> (\<forall>basePNG width' height' iWidth iHeight.
          res = Inr (basePNG, width', height', iWidth, iHeight) \<longrightarrow>
            rsvgConvert env markup (Size iWidth iHeight) = Inr basePNG
            \<and> width' = number_of_int width \<and> height' = number_of_int height
            \<and> iWidth = iW \<and> iHeight = iH)"
  using assms
  by (auto simp: sizeFixed_def Let_def split: sum.splits)

lemma materialize_calls:
  assumes "materialize env identifier equation key flags basePNG width height iWidth iHeight s = (res, s1)"
  shows "\<exists>filename. calls s1 = calls s @ [PngFitTo basePNG filename iWidth iHeight (and flags 2 \<noteq> 0)]"
  using assms
  by (auto simp: materialize_def Let_def write_image_def split: sum.splits)

lemma processEquation_fixed_calls:
  assumes "and flags 1 = 0"
    and "processEquation env identifier equation cWidth cHeight width height flags color s = (res, s1)"
    and iW: "iW = Number_multiply (Number_multiply (number_of_int width) (number_of_int cWidth))
                (internalScale s)"
    and iH: "iH = Number_multiply (Number_multiply (number_of_int height) (number_of_int cHeight))
                (internalScale s)"
  shows "\<exists>t. calls s1 = calls s @ t
    \<and> (\<forall>c\<in>set t. c = Tex2svg equation \<or> rasterizer_size c = Some (iW, iH))"
proof (cases "equation = [] \<or> length (trim equation) = 0")
  case True
  then show ?thesis using assms by (auto simp: processEquation_def writeError_def)
next
  case nonblank: False
  let ?k = "equation_key equation cWidth cHeight width height flags color"
  show ?thesis
  proof (cases "equationMap s ?k")
    case (Some obj)
    then show ?thesis using assms nonblank by (auto simp: processEquation_def write_image_def)
  next
    case None
    obtain r0 s0 where ts: "equationToSVG env equation s = (r0, s0)" by (cases "equationToSVG env equation s")
    note f0 = equationToSVG_frame [OF ts]
    have c0: "\<exists>t. calls s0 = calls s @ t \<and> (\<forall>c\<in>set t. c = Tex2svg equation)"
      using equationToSVG_calls [OF ts] by auto
    show ?thesis
    proof (cases r0)
      case (Inl err)
      then show ?thesis using assms(1,2) nonblank None ts c0
        by (auto simp: processEquation_def)
    next
      case (Inr r)
      show ?thesis
      proof (cases "ts_svg r = None \<or> ts_svg r = Some []")
        case True
        then show ?thesis using assms(1,2) nonblank None ts c0 Inr
          by (auto simp: processEquation_def writeError_def split: option.splits)
      next
        case False
        then obtain markup where mk: "ts_svg r = Some markup" "markup \<noteq> []" by auto
        obtain r2 s2 where sz: "sizeFixed env (recolor color markup) cWidth cHeight width height s0 = (r2, s2)"
          by (cases "sizeFixed env (recolor color markup) cWidth cHeight width height s0")
        have iW0: "iW = Number_multiply (Number_multiply (number_of_int width) (number_of_int cWidth))
                (internalScale s0)"
          and iH0: "iH = Number_multiply (Number_multiply (number_of_int height) (number_of_int cHeight))
                (internalScale s0)"
          using iW iH f0 by simp_all
        note c2 = sizeFixed_calls [OF sz iW0 iH0]
        have pe: "(res, s1) = (case (r2, s2) of
                               (Inl err, s2) \<Rightarrow> (Inl err, s2)
                             | (Inr (basePNG, width', height', iWidth, iHeight), s2) \<Rightarrow>
                                 materialize env identifier equation ?k flags basePNG
                                   width' height' iWidth iHeight s2)"
          using assms(1,2) nonblank None ts Inr mk sz
          by (simp add: processEquation_def Let_def)
        show ?thesis
        proof (cases r2)
          case (Inl err)
          then show ?thesis using pe c0 c2 by auto
        next
          case (Inr tup)
          obtain basePNG w' h' iW' iH' where tup: "tup = (basePNG, w', h', iW', iH')" by (cases tup) auto
          have m: "materialize env identifier equation ?k flags basePNG w' h' iW' iH' s2 = (res, s1)"
            using pe Inr tup by simp
          from materialize_calls [OF m] obtain filename where
            c3: "calls s1 = calls s2 @ [PngFitTo basePNG filename iW' iH' (and flags 2 \<noteq> 0)]" by blast
          have dims: "iW' = iW" "iH' = iH"
            using c2 Inr tup by auto
          from c0 obtain t0 where t0: "calls s0 = calls s @ t0" "\<forall>c\<in>set t0. c = Tex2svg equation" by blast
          have "calls s1 = calls s @ (t0 @ [RsvgConvert (recolor color markup) (Size iW iH),
                     PngFitTo basePNG filename iW iH (and flags 2 \<noteq> 0)])"
            using c3 c2 t0 dims by simp
          moreover have "\<forall>c\<in>set (t0 @ [RsvgConvert (recolor color markup) (Size iW iH),
                     PngFitTo basePNG filename iW iH (and flags 2 \<noteq> 0)]).
               c = Tex2svg equation \<or> rasterizer_size c = Some (iW, iH)"
            using t0 by auto
          ultimately show ?thesis by blast
        qed
      qed
    qed
  qed
qed

lemma processEquation_fixed_invokes:
  assumes "and flags 1 = 0"
    and "\<not> (equation = [] \<or> length (trim equation) = 0)"
    and "equationMap s (equation_key equation cWidth cHeight width height flags color) = None"
    and "equationToSVG env equation s = (Inr r0, s0)"
    and "ts_svg r0 = Some markup" and "markup \<noteq> []"
    and "processEquation env identifier equation cWidth cHeight width height flags color s = (res, s1)"
    and iW: "iW = Number_multiply (Number_multiply (number_of_int width) (number_of_int cWidth))
                (internalScale s)"
    and iH: "iH = Number_multiply (Number_multiply (number_of_int height) (number_of_int cHeight))
                (internalScale s)"
  shows "\<exists>u. calls s1 = calls s0 @ RsvgConvert (recolor color markup) (Size iW iH) # u"
proof -
  let ?k = "equation_key equation cWidth cHeight width height flags color"
  note f0 = equationToSVG_frame [OF assms(4)]
  obtain r2 s2 where sz: "sizeFixed env (recolor color markup) cWidth cHeight width height s0 = (r2, s2)"
    by (cases "sizeFixed env (recolor color markup) cWidth cHeight width height s0")
  have iW0: "iW = Number_multiply (Number_multiply (number_of_int width) (number_of_int cWidth))
                (internalScale s0)"
    and iH0: "iH = Number_multiply (Number_multiply (number_of_int height) (number_of_int cHeight))
                (internalScale s0)"
    using iW iH f0 by simp_all
  note c2 = sizeFixed_calls [OF sz iW0 iH0]
  have pe: "(res, s1) = (case (r2, s2) of
                         (Inl err, s2) \<Rightarrow> (Inl err, s2)
                       | (Inr (basePNG, width', height', iWidth, iHeight), s2) \<Rightarrow>
                           materialize env identifier equation ?k flags basePNG
                             width' height' iWidth iHeight s2)"
    using assms(1-7) sz by (simp add: processEquation_def Let_def)
  show ?thesis
  proof (cases r2)
    case (Inl err)
    then show ?thesis using pe c2 by auto
  next
    case (Inr tup)
    obtain basePNG w' h' iW' iH' where tup: "tup = (basePNG, w', h', iW', iH')" by (cases tup) auto
    have m: "materialize env identifier equation ?k flags basePNG w' h' iW' iH' s2 = (res, s1)"
      using pe Inr tup by simp
    from materialize_calls [OF m] obtain filename where
      "calls s1 = calls s2 @ [PngFitTo basePNG filename iW' iH' (and flags 2 \<noteq> 0)]" by blast
    then show ?thesis using c2 by simp
  qed
qed

lemma pixel_product_exact:
  assumes "0 < w" and "0 < c" and "0 < k" and "w * c * k < 2 ^ 53"
  shows "Number_multiply (Number_multiply (number_of_int w) (number_of_int c)) (number_of_int k)
    = Fin (of_int (w * c * k))"
proof -
  have wc: "0 < w * c" using assms(1,2) by simp
  have "w * c * 1 \<le> w * c * k" using wc assms(3) by (intro mult_left_mono) simp_all
  then have "w * c \<le> w * c * k" by (simp only: mult_1_right)
  then have b1: "w * c < 2 ^ 53" using assms(4) by (rule le_less_trans)
  have "w * 1 \<le> w * c" using assms(1,2) by (intro mult_left_mono) simp_all
  then have "w \<le> w * c" by (simp only: mult_1_right)
  then have "w < 2 ^ 53" using b1 by (rule le_less_trans)
  then have b2: "\<bar>w\<bar> < 2 ^ 53" using assms(1) by (simp only: abs_of_pos)
  have "1 * c \<le> w * c" using assms(1,2) by (intro mult_right_mono) simp_all
  then have "c \<le> w * c" by (simp only: mult_1_left)
  then have "c < 2 ^ 53" using b1 by (rule le_less_trans)
  then have b3: "\<bar>c\<bar> < 2 ^ 53" using assms(2) by (simp only: abs_of_pos)
  have "1 * k \<le> w * c * k" using wc assms(3) by (intro mult_right_mono) simp_all
  then have "k \<le> w * c * k" by (simp only: mult_1_left)
  then have "k < 2 ^ 53" using assms(4) by (rule le_less_trans)
  then have b4: "\<bar>k\<bar> < 2 ^ 53" using assms(3) by (simp only: abs_of_pos)
  show ?thesis
    unfolding number_of_int_exact [OF b2] number_of_int_exact [OF b3] number_of_int_exact [OF b4]
      Number_multiply_exact [OF assms(1,2) b1] Number_multiply_exact [OF wc assms(3,4)] ..
qed

text \<open>
  Claim C2, as amended. For a render request whose flag bit 0 is clear, every invocation
  of the rasterizer that the request causes (\<open>rsvgConvert\<close> and \<open>pngFitTo\<close>) is
  given the box of \<open>width * cellWidth * internalScale\<close> by
  \<open>height * cellHeight * internalScale\<close> pixels, each product being the product of the
  source: two multiplications of doubles from left to right, each rounded to the nearest
  double. When the equation is not blank, is not in the rendered-image cache and has a
  markup, \<open>rsvgConvert\<close> is invoked with that box right after the typeset lookup. For
  positive integers and an integer scale whose product is below \<open>2^53\<close>, the box is
  the exact product.
\<close>

theorem fixed_mode_pixel_box:
  assumes "req_type r = ''request''" and "and (req_flags r) 1 = 0"
    and "processAll env r s = (res, s1)"
    and "iWidth = Number_multiply
                    (Number_multiply (number_of_int (req_width r)) (number_of_int (req_cellWidth r)))
                    (internalScale s)"
    and "iHeight = Number_multiply
                     (Number_multiply (number_of_int (req_height r)) (number_of_int (req_cellHeight r)))
                     (internalScale s)"
  shows "(\<exists>t. calls s1 = calls s @ t
            \<and> (\<forall>c\<in>set t. c = Tex2svg (req_data r) \<or> rasterizer_size c = Some (iWidth, iHeight)))
    \<and> (\<forall>r0 s0 markup.
          \<not> (req_data r = [] \<or> length (trim (req_data r)) = 0)
          \<and> equationMap s (equation_key (req_data r) (req_cellWidth r) (req_cellHeight r)
                 (req_width r) (req_height r) (req_flags r) (req_color r)) = None
          \<and> equationToSVG env (req_data r) s = (Inr r0, s0)
          \<and> ts_svg r0 = Some markup \<and> markup \<noteq> []
          \<longrightarrow> (\<exists>u. calls s1 = calls s0
                  @ RsvgConvert (recolor (req_color r) markup) (Size iWidth iHeight) # u))
    \<and> (\<forall>k. 0 < req_width r \<and> 0 < req_cellWidth r \<and> 0 < k
            \<and> internalScale s = number_of_int k
            \<and> req_width r * req_cellWidth r * k < 2 ^ 53
          \<longrightarrow> iWidth = Fin (of_int (req_width r * req_cellWidth r * k)))
    \<and> (\<forall>k. 0 < req_height r \<and> 0 < req_cellHeight r \<and> 0 < k
            \<and> internalScale s = number_of_int k
            \<and> req_height r * req_cellHeight r * k < 2 ^ 53
          \<longrightarrow> iHeight = Fin (of_int (req_height r * req_cellHeight r * k)))"
proof -
  obtain res' s' where pe: "processEquation env (req_identifier r) (req_data r) (req_cellWidth r)
                    (req_cellHeight r) (req_width r) (req_height r) (req_flags r) (req_color r) s = (res', s')"
    by (cases "processEquation env (req_identifier r) (req_data r) (req_cellWidth r)
                    (req_cellHeight r) (req_width r) (req_height r) (req_flags r) (req_color r) s")
  have c: "calls s1 = calls s'" using processAll_calls [OF assms(1), of env s] assms(3) pe by simp
  have a: "\<exists>t. calls s1 = calls s @ t
            \<and> (\<forall>c\<in>set t. c = Tex2svg (req_data r) \<or> rasterizer_size c = Some (iWidth, iHeight))"
    unfolding c using processEquation_fixed_calls [OF assms(2) pe assms(4,5)] .
  have b: "\<exists>u. calls s1 = calls s0
                  @ RsvgConvert (recolor (req_color r) markup) (Size iWidth iHeight) # u"
    if "\<not> (req_data r = [] \<or> length (trim (req_data r)) = 0)"
      and "equationMap s (equation_key (req_data r) (req_cellWidth r) (req_cellHeight r)
                 (req_width r) (req_height r) (req_flags r) (req_color r)) = None"
      and "equationToSVG env (req_data r) s = (Inr r0, s0)"
      and "ts_svg r0 = Some markup" and "markup \<noteq> []" for r0 s0 markup
    unfolding c using processEquation_fixed_invokes [OF assms(2) that pe assms(4,5)] .
  have w: "iWidth = Fin (of_int (req_width r * req_cellWidth r * k))"
    if "0 < req_width r" and "0 < req_cellWidth r" and "0 < k"
      and "internalScale s = number_of_int k" and "req_width r * req_cellWidth r * k < 2 ^ 53" for k
    unfolding assms(4) that(4) using that(1,2,3,5) by (rule pixel_product_exact)
  have h: "iHeight = Fin (of_int (req_height r * req_cellHeight r * k))"
    if "0 < req_height r" and "0 < req_cellHeight r" and "0 < k"
      and "internalScale s = number_of_int k" and "req_height r * req_cellHeight r * k < 2 ^ 53" for k
    unfolding assms(5) that(4) using that(1,2,3,5) by (rule pixel_product_exact)
  show ?thesis using a b w h by blast
qed

theorem fixed_mode_pixel_box_witness:
  "and (req_flags (demo_request\<lparr>req_width := 3, req_height := 2\<rparr>)) 1 = 0
   \<and> calls (snd (processAll demo_env (demo_request\<lparr>req_width := 3, req_height := 2\<rparr>)
                 (init_state\<lparr>internalScale := Fin 2\<rparr>)))
     = [Tex2svg ''x^2'', RsvgConvert (recolor ''#ffffff'' demo_markup) (Size (Fin 48) (Fin 64)),
        PngFitTo ''PNG'' ''/tmp/nvim-mdmath-a1b2c3/9f86d08_48x64.png'' (Fin 48) (Fin 64) False]
   \<and> (\<exists>t. calls (snd (processAll demo_env (demo_request\<lparr>req_width := 3, req_height := 2\<rparr>)
                 (init_state\<lparr>internalScale := Fin 2\<rparr>)))
           = calls (init_state\<lparr>internalScale := Fin 2\<rparr>) @ t
        \<and> list_all (\<lambda>c. c = Tex2svg ''x^2''
              \<or> rasterizer_size c
                   = Some (Number_multiply (Number_multiply (number_of_int 3) (number_of_int 8)) (Fin 2),
                           Number_multiply (Number_multiply (number_of_int 2) (number_of_int 16)) (Fin 2))) t)
   \<and> Number_multiply (Number_multiply (number_of_int 3) (number_of_int 8)) (Fin 2)
       = Fin (of_int (3 * 8 * 2))
   \<and> Number_multiply (Number_multiply (number_of_int 2) (number_of_int 16)) (Fin 2)
       = Fin (of_int (2 * 16 * 2))"
proof -
  let ?r = "demo_request\<lparr>req_width := 3, req_height := 2\<rparr>"
  let ?s = "init_state\<lparr>internalScale := Fin 2\<rparr>"
  let ?w = "Number_multiply (Number_multiply (number_of_int 3) (number_of_int 8)) (Fin 2)"
  let ?h = "Number_multiply (Number_multiply (number_of_int 2) (number_of_int 16)) (Fin 2)"
  have t: "req_type ?r = ''request''" and f: "and (req_flags ?r) 1 = 0"
    by (simp_all add: demo_request_def)
  have p: "processAll demo_env ?r ?s = (fst (processAll demo_env ?r ?s), snd (processAll demo_env ?r ?s))"
    by simp
  have iw: "?w = Number_multiply
                    (Number_multiply (number_of_int (req_width ?r)) (number_of_int (req_cellWidth ?r)))
                    (internalScale ?s)"
    and ih: "?h = Number_multiply
                     (Number_multiply (number_of_int (req_height ?r)) (number_of_int (req_cellHeight ?r)))
                     (internalScale ?s)"
    by (simp_all add: demo_request_def)
  have c: "calls (snd (processAll demo_env ?r ?s))
     = [Tex2svg ''x^2'', RsvgConvert (recolor ''#ffffff'' demo_markup) (Size (Fin 48) (Fin 64)),
        PngFitTo ''PNG'' ''/tmp/nvim-mdmath-a1b2c3/9f86d08_48x64.png'' (Fin 48) (Fin 64) False]"
    by code_simp
  have two: "internalScale ?s = number_of_int 2" by (simp add: number_of_int_exact)
  note w = fixed_mode_pixel_box [OF t f p iw ih]
  from w have one: "\<exists>t. calls (snd (processAll demo_env ?r ?s)) = calls ?s @ t
        \<and> list_all (\<lambda>c. c = Tex2svg ''x^2'' \<or> rasterizer_size c = Some (?w, ?h)) t"
    by (simp add: demo_request_def list_all_iff)
  from w two have "?w = Fin (of_int (req_width ?r * req_cellWidth ?r * 2))"
    and "?h = Fin (of_int (req_height ?r * req_cellHeight ?r * 2))"
    by (simp_all add: demo_request_def)
  then have exact: "?w = Fin (of_int (3 * 8 * 2))" "?h = Fin (of_int (2 * 16 * 2))"
    by (simp_all add: demo_request_def)
  show ?thesis using f c one exact by blast
qed

text \<open>
  The claim as it stands says that the box is exactly the product, for all positive
  integers. The products are products of doubles: with a span and a cell width of
  94906267 and the scale 1, the exact product is the odd number 9007199515875289, above
  \<open>2^53\<close>, and the rasterizer is given 9007199515875288.
\<close>

theorem fixed_mode_pixel_box_counterexample:
  "(\<exists>u. calls (snd (processAll demo_env
                      (demo_request\<lparr>req_width := 94906267, req_cellWidth := 94906267\<rparr>) init_state))
          = Tex2svg ''x^2''
            # RsvgConvert (recolor ''#ffffff'' demo_markup) (Size (Fin 9007199515875288) (Fin 16)) # u)
   \<and> internalScale init_state = Fin 1
   \<and> (94906267 :: int) * 94906267 * 1 = 9007199515875289"
proof -
  let ?r = "demo_request\<lparr>req_width := 94906267, req_cellWidth := 94906267\<rparr>"
  let ?ts = "\<lparr>ts_svg = Some demo_markup, ts_error = None\<rparr>"
  let ?sa = "snd (equationToSVG demo_env ''x^2'' init_state)"
  have f: "and (0 :: int) 1 = 0" by simp
  have nb: "\<not> (''x^2'' = [] \<or> length (trim ''x^2'') = 0)"
    by (simp add: trim_def isWhiteSpace_def)
  have miss: "equationMap init_state (equation_key ''x^2'' 94906267 16 94906267 1 0 ''#ffffff'') = None"
    by (simp add: init_state_def)
  have ts: "equationToSVG demo_env ''x^2'' init_state = (Inr ?ts, ?sa)"
    by (simp add: equationToSVG_def svgCache_get_def init_state_def demo_env_def
        Object_prototype_keys_def Let_def)
  have ca: "calls ?sa = [Tex2svg ''x^2'']"
    by (simp add: equationToSVG_def svgCache_get_def init_state_def demo_env_def
        Object_prototype_keys_def Let_def)
  have mk: "ts_svg ?ts = Some demo_markup" "demo_markup \<noteq> []" by (simp_all add: demo_markup_def)
  have pe: "processEquation demo_env ''1'' ''x^2'' 94906267 16 94906267 1 0 ''#ffffff'' init_state
      = (fst (processEquation demo_env ''1'' ''x^2'' 94906267 16 94906267 1 0 ''#ffffff'' init_state),
         snd (processEquation demo_env ''1'' ''x^2'' 94906267 16 94906267 1 0 ''#ffffff'' init_state))"
    by simp
  have iw: "Fin 9007199515875288
      = Number_multiply (Number_multiply (number_of_int 94906267) (number_of_int 94906267))
          (internalScale init_state)"
    unfolding init_state_def by code_simp
  have ih: "Fin 16
      = Number_multiply (Number_multiply (number_of_int 1) (number_of_int 16))
          (internalScale init_state)"
    unfolding init_state_def by code_simp
  from processEquation_fixed_invokes [OF f nb miss ts mk pe iw ih]
  have "\<exists>u. calls (snd (processEquation demo_env ''1'' ''x^2'' 94906267 16 94906267 1 0 ''#ffffff''
                           init_state))
          = Tex2svg ''x^2''
            # RsvgConvert (recolor ''#ffffff'' demo_markup) (Size (Fin 9007199515875288) (Fin 16)) # u"
    unfolding ca by simp
  moreover have "calls (snd (processAll demo_env ?r init_state))
      = calls (snd (processEquation demo_env ''1'' ''x^2'' 94906267 16 94906267 1 0 ''#ffffff''
                           init_state))"
    using processAll_calls [of ?r demo_env init_state] by (simp add: demo_request_def)
  ultimately show ?thesis by (simp add: init_state_def)
qed

end
